theory Spec2Isabelle
  imports Complex_Main "HOL-Library.Word"
begin

section \<open>Python numbers\<close>

text \<open>
  Python's \<^verbatim>\<open>int(x)\<close> on a float truncates toward zero. Floats are read as the real
  numbers they denote; the rounding of float arithmetic is not modelled.
\<close>

definition py_int :: "real \<Rightarrow> int" where
  "py_int x = (if 0 \<le> x then \<lfloor>x\<rfloor> else \<lceil>x\<rceil>)"

section \<open>Job state (models.py, api.py, processor.py)\<close>

datatype job_status = UPLOADED | PROCESSING | COMPLETED | FAILED

text \<open>
  The stage labels are f-strings in the source; the model keeps their shape and their
  arguments: \<^verbatim>\<open>f"Extracting page {page_num}/{num_pages}..."\<close> is \<open>ExtractingPage page_num num_pages\<close>.
\<close>

datatype stage_label =
    NoStage
  | Starting
  | ExtractingPdf
  | ExtractingPage int int
  | RenderingPaper int
  | WritingText int
  | ConvertingDiagrams int
  | ComposingPage int
  | GeneratingOutput
  | StageCompleted
  | StageFailed

record process_config =
  handwriting_style :: string
  imperfection_level :: real
  paper_type :: string
  ink_color :: string
  line_spacing :: int
  font_size :: int
  enable_smudges :: bool
  enable_coffee_stains :: bool
  enable_page_shadows :: bool
  enable_annotations :: bool

record job =
  job_filename :: string
  job_status :: job_status
  job_config :: "process_config option"
  num_pages :: int
  progress :: int
  current_stage :: stage_label
  upload_path :: "string option"
  result_path :: "string option"
  error_message :: "string option"
  updated_at :: nat
  completed_at :: "nat option"

type_synonym job_db = "string \<rightharpoonup> job"

datatype http_error = HTTPException nat string

record process_response =
  resp_job_id :: string
  resp_status :: string
  resp_message :: string

text \<open>
  \<^verbatim>\<open>process_document\<close> of api.py: the start-processing operation. The result is the
  response (or the HTTP error raised), the job table after the call, and the
  background tasks queued by the call.
\<close>

definition process_document ::
  "job_db \<Rightarrow> nat \<Rightarrow> string \<Rightarrow> process_config \<Rightarrow>
   (http_error + process_response) \<times> job_db \<times> (string \<times> process_config) list" where
  "process_document db now job_id cfg =
     (case db job_id of
        None \<Rightarrow> (Inl (HTTPException 404 ''Job not found''), db, [])
      | Some j \<Rightarrow>
          if job_status j = PROCESSING
          then (Inl (HTTPException 400 ''Job is already processing''), db, [])
          else if job_status j = COMPLETED
          then (Inl (HTTPException 400 ''Job already completed''), db, [])
          else
            (Inr \<lparr>resp_job_id = job_id, resp_status = ''processing'',
                  resp_message = ''Processing started. Use /status endpoint to track progress.''\<rparr>,
             db(job_id \<mapsto> j\<lparr>job_config := Some cfg, job_status := PROCESSING, progress := 0,
                               current_stage := Starting, updated_at := now\<rparr>),
             [(job_id, cfg)]))"

text \<open>
  \<^verbatim>\<open>_update_job(db, job_id, **kwargs)\<close> of processor.py. The keyword arguments are the
  fields of \<open>job_update\<close> that are set; a missing job makes the call a no-op.
\<close>

record job_update =
  upd_status :: "job_status option"
  upd_progress :: "int option"
  upd_stage :: "stage_label option"
  upd_error :: "string option"
  upd_result :: "string option"
  upd_completed :: "nat option"

definition no_update :: job_update where
  "no_update = \<lparr>upd_status = None, upd_progress = None, upd_stage = None,
                  upd_error = None, upd_result = None, upd_completed = None\<rparr>"

definition set_fields :: "job_update \<Rightarrow> job \<Rightarrow> job" where
  "set_fields u j =
     j\<lparr>job_status := (case upd_status u of None \<Rightarrow> job_status j | Some s \<Rightarrow> s),
       progress := (case upd_progress u of None \<Rightarrow> progress j | Some p \<Rightarrow> p),
       current_stage := (case upd_stage u of None \<Rightarrow> current_stage j | Some s \<Rightarrow> s),
       error_message := (case upd_error u of None \<Rightarrow> error_message j | Some e \<Rightarrow> Some e),
       result_path := (case upd_result u of None \<Rightarrow> result_path j | Some r \<Rightarrow> Some r),
       completed_at := (case upd_completed u of None \<Rightarrow> completed_at j | Some t \<Rightarrow> Some t)\<rparr>"

definition update_job :: "nat \<Rightarrow> string \<Rightarrow> job_db \<Rightarrow> job_update \<Rightarrow> job_db" where
  "update_job now job_id db u =
     (case db job_id of
        None \<Rightarrow> db
      | Some j \<Rightarrow> db(job_id \<mapsto> (set_fields u j)\<lparr>updated_at := now\<rparr>))"

text \<open>
  One page of the loop of \<^verbatim>\<open>process_document_task\<close>. What the external steps do is
  given by the page's record: whether the extracted page has images, and which
  step (if any) raises, with the exception's message.
\<close>

datatype substep = Extract | RenderPaper | WriteText | ConvertDiagrams | Compose

record page_env =
  has_images :: bool
  fault :: "(substep \<times> string) option"

definition raises_at :: "page_env \<Rightarrow> substep \<Rightarrow> string option" where
  "raises_at pg s =
     (case fault pg of
        None \<Rightarrow> None
      | Some (s', msg) \<Rightarrow> if s' = s then Some msg else None)"

definition page_progress_base :: "int \<Rightarrow> int \<Rightarrow> int" where
  "page_progress_base page_num n =
     py_int (5 + real_of_int (page_num - 1) / real_of_int n * 80)"

definition progress_stage :: "int \<Rightarrow> stage_label \<Rightarrow> job_update" where
  "progress_stage p s = no_update\<lparr>upd_progress := Some p, upd_stage := Some s\<rparr>"

text \<open>
  The writes of one page, in order, and the message of the exception that ended the
  page (\<open>None\<close> when the page was composed).
\<close>

definition page_run :: "int \<Rightarrow> int \<Rightarrow> page_env \<Rightarrow> job_update list \<times> string option" where
  "page_run n page_num pg =
     (let base = page_progress_base page_num n;
          u1 = [progress_stage base (ExtractingPage page_num n)]
      in case raises_at pg Extract of Some e \<Rightarrow> (u1, Some e) | None \<Rightarrow>
      let u2 = u1 @ [progress_stage (base + 5) (RenderingPaper page_num)]
      in case raises_at pg RenderPaper of Some e \<Rightarrow> (u2, Some e) | None \<Rightarrow>
      let u3 = u2 @ [progress_stage (base + 10) (WritingText page_num)]
      in case raises_at pg WriteText of Some e \<Rightarrow> (u3, Some e) | None \<Rightarrow>
      let u4 = (if has_images pg
                then u3 @ [progress_stage (base + 15) (ConvertingDiagrams page_num)]
                else u3)
      in case (if has_images pg then raises_at pg ConvertDiagrams else None) of
           Some e \<Rightarrow> (u4, Some e) | None \<Rightarrow>
      let u5 = u4 @ [progress_stage (base + 18) (ComposingPage page_num)]
      in case raises_at pg Compose of Some e \<Rightarrow> (u5, Some e) | None \<Rightarrow> (u5, None))"

text \<open>\<^verbatim>\<open>for page_num in range(1, num_pages + 1)\<close>, started at \<open>page_num\<close>.\<close>

fun pages_loop :: "int \<Rightarrow> int \<Rightarrow> page_env list \<Rightarrow> job_update list \<times> string option" where
  "pages_loop n page_num [] = ([], None)"
| "pages_loop n page_num (pg # rest) =
     (case page_run n page_num pg of
        (us, Some e) \<Rightarrow> (us, Some e)
      | (us, None) \<Rightarrow>
          (case pages_loop n (page_num + 1) rest of (us', r) \<Rightarrow> (us @ us', r)))"

text \<open>
  \<^verbatim>\<open>process_document_task\<close>: the writes it makes to the job, in order. The
  environment says whether the uploaded file exists, what each page does, and
  whether the export raises.
\<close>

record run_env =
  pdf_exists :: bool
  pages :: "page_env list"
  export_fault :: "string option"
  result_file :: string

definition failed_update :: "string \<Rightarrow> job_update" where
  "failed_update e =
     no_update\<lparr>upd_status := Some FAILED, upd_stage := Some StageFailed, upd_error := Some e\<rparr>"

definition task_updates :: "nat \<Rightarrow> job_db \<Rightarrow> string \<Rightarrow> run_env \<Rightarrow> job_update list" where
  "task_updates now db job_id env =
     (case db job_id of
        None \<Rightarrow> []
      | Some j \<Rightarrow>
          if upload_path j = None \<or> \<not> pdf_exists env
          then [no_update\<lparr>upd_status := Some FAILED, upd_error := Some ''PDF file not found''\<rparr>]
          else
            (let setup = [progress_stage 5 ExtractingPdf];
                 n = int (length (pages env))
             in case pages_loop n 1 (pages env) of
                  (us, Some e) \<Rightarrow> setup @ us @ [failed_update e]
                | (us, None) \<Rightarrow>
                    (let export = setup @ us @ [progress_stage 90 GeneratingOutput]
                     in case export_fault env of
                          Some e \<Rightarrow> export @ [failed_update e]
                        | None \<Rightarrow>
                            export @
                            [no_update\<lparr>upd_status := Some COMPLETED, upd_progress := Some 100,
                                       upd_stage := Some StageCompleted,
                                       upd_result := Some (result_file env),
                                       upd_completed := Some now\<rparr>])))"

definition process_document_task :: "nat \<Rightarrow> job_db \<Rightarrow> string \<Rightarrow> run_env \<Rightarrow> job_db" where
  "process_document_task now db job_id env =
     foldl (update_job now job_id) db (task_updates now db job_id env)"

text \<open>The progress values a run writes, in the order of the writes.\<close>

definition progress_written :: "job_update list \<Rightarrow> int list" where
  "progress_written us = List.map_filter upd_progress us"

section \<open>The random module\<close>

text \<open>
  The source draws from Python's global \<^verbatim>\<open>random\<close> module. A random source gives, for
  the \<open>k\<close>-th call made to the module, the float that \<^verbatim>\<open>random()\<close> would return and
  the integer that \<^verbatim>\<open>_randbelow(n)\<close> would return; every model function that draws
  takes the number of calls made so far and returns the new count. As in CPython,
  \<^verbatim>\<open>uniform(a, b)\<close> is \<^verbatim>\<open>a + (b - a) * random()\<close>, \<^verbatim>\<open>randint(a, b)\<close> is
  \<^verbatim>\<open>a + _randbelow(b - a + 1)\<close>, \<^verbatim>\<open>choice(seq)\<close> is \<^verbatim>\<open>seq[_randbelow(len(seq))]\<close> and
  \<^verbatim>\<open>choices(population, weights)\<close> bisects the cumulative weights at
  \<^verbatim>\<open>random() * total\<close>.
\<close>

record rand_source =
  rand_float :: "nat \<Rightarrow> real"
  rand_below :: "nat \<Rightarrow> nat \<Rightarrow> nat"

definition random_random :: "rand_source \<Rightarrow> nat \<Rightarrow> real" where
  "random_random rs k = rand_float rs k"

definition randbelow :: "rand_source \<Rightarrow> nat \<Rightarrow> nat \<Rightarrow> nat" where
  "randbelow rs k n = rand_below rs k n mod n"

definition random_uniform :: "rand_source \<Rightarrow> nat \<Rightarrow> real \<Rightarrow> real \<Rightarrow> real" where
  "random_uniform rs k a b = a + (b - a) * rand_float rs k"

definition random_randint :: "rand_source \<Rightarrow> nat \<Rightarrow> nat \<Rightarrow> nat \<Rightarrow> nat" where
  "random_randint rs k a b = a + randbelow rs k (b + 1 - a)"

section \<open>Imperfection model (handwriting_engine.py)\<close>

text \<open>
  Text is a list of 8-bit characters, read as the code points U+0000 to U+00FF.
  \<open>isspace\<close>, \<open>isupper\<close>, \<open>lower\<close> and \<open>upper\<close> are Python's \<^verbatim>\<open>str\<close> methods on
  that range.
\<close>

definition isspace :: "char \<Rightarrow> bool" where
  "isspace c = ((of_char c :: nat) \<in> {9, 10, 11, 12, 13, 28, 29, 30, 31, 32, 133, 160})"

definition isupper :: "char \<Rightarrow> bool" where
  "isupper c =
     (let n = (of_char c :: nat)
      in (65 \<le> n \<and> n \<le> 90) \<or> (192 \<le> n \<and> n \<le> 214) \<or> (216 \<le> n \<and> n \<le> 222))"

definition lower :: "char \<Rightarrow> char" where
  "lower c = (if isupper c then char_of ((of_char c :: nat) + 32) else c)"

text \<open>
  \<open>upper\<close> is only applied to the lower-case form of an upper-case letter or to a value
  of the \<open>nearby\<close> table, so the letters whose upper-case form is not one character of
  the range (U+00B5, U+00DF, U+00FF) do not reach it.
\<close>

definition upper :: "char \<Rightarrow> char" where
  "upper c =
     (let n = (of_char c :: nat)
      in if (97 \<le> n \<and> n \<le> 122) \<or> (224 \<le> n \<and> n \<le> 246) \<or> (248 \<le> n \<and> n \<le> 254)
         then char_of (n - 32) else c)"

text \<open>\<^verbatim>\<open>text.split()\<close>: the maximal runs of non-whitespace characters, in order.\<close>

function py_split :: "string \<Rightarrow> string list" where
  "py_split s =
     (case dropWhile isspace s of
        [] \<Rightarrow> []
      | c # cs \<Rightarrow>
          takeWhile (\<lambda>x. \<not> isspace x) (c # cs) # py_split (dropWhile (\<lambda>x. \<not> isspace x) (c # cs)))"
  by pat_completeness auto
termination
proof (relation "measure length")
  show "wf (measure length)" by simp
next
  fix s :: string and c cs
  assume eq: "dropWhile isspace s = c # cs"
  have "length (dropWhile (\<lambda>x. \<not> isspace x) (c # cs)) \<le> length (c # cs)"
    by (rule length_dropWhile_le)
  moreover have "\<not> isspace c"
    using eq hd_dropWhile [of isspace s] by auto
  then have "dropWhile (\<lambda>x. \<not> isspace x) (c # cs) = dropWhile (\<lambda>x. \<not> isspace x) cs"
    by simp
  moreover have "length (dropWhile (\<lambda>x. \<not> isspace x) cs) \<le> length cs"
    by (rule length_dropWhile_le)
  moreover have "length (c # cs) \<le> length s"
    using length_dropWhile_le [of isspace s] eq by simp
  ultimately show "(dropWhile (\<lambda>x. \<not> isspace x) (c # cs), s) \<in> measure length"
    by simp
qed

declare py_split.simps [simp del]

datatype seg_type = Normal | Error | Strikethrough | Erasure

record segment =
  seg_text :: string
  seg_type :: seg_type
  correction :: "string option"

datatype error_type = Swap | Double | Miss | Nearby

definition error_types :: "error_type list" where
  "error_types = [Swap, Double, Miss, Nearby]"

definition nearby :: "char \<rightharpoonup> char" where
  "nearby =
     [CHR ''a'' \<mapsto> CHR ''s'', CHR ''s'' \<mapsto> CHR ''a'', CHR ''d'' \<mapsto> CHR ''s'',
      CHR ''e'' \<mapsto> CHR ''r'', CHR ''r'' \<mapsto> CHR ''t'', CHR ''t'' \<mapsto> CHR ''y'',
      CHR ''i'' \<mapsto> CHR ''o'', CHR ''o'' \<mapsto> CHR ''p'', CHR ''n'' \<mapsto> CHR ''m'',
      CHR ''m'' \<mapsto> CHR ''n'']"

text \<open>\<^verbatim>\<open>word[i]\<close>; \<open>None\<close> is the IndexError.\<close>

definition char_at :: "string \<Rightarrow> nat \<Rightarrow> char option" where
  "char_at w i = (if i < length w then Some (w ! i) else None)"

text \<open>
  \<^verbatim>\<open>_make_spelling_error\<close>. An IndexError inside the \<^verbatim>\<open>try\<close> is caught and the word is
  returned unchanged, as at the end of the source function.
\<close>

definition make_spelling_error :: "rand_source \<Rightarrow> nat \<Rightarrow> string \<Rightarrow> string \<times> nat" where
  "make_spelling_error rs k word =
     (if length word < 3 then (word, k)
      else
        let error_type = error_types ! randbelow rs k (length error_types);
            k1 = k + 1
        in if error_type = Swap \<and> 3 \<le> length word then
             (let pos = random_randint rs k1 1 (length word - 2)
              in case (char_at word (pos + 1), char_at word pos) of
                   (Some a, Some b) \<Rightarrow> (take pos word @ [a] @ [b] @ drop (pos + 2) word, k1 + 1)
                 | _ \<Rightarrow> (word, k1 + 1))
           else if error_type = Double then
             (let pos = random_randint rs k1 0 (length word - 1)
              in case char_at word pos of
                   Some a \<Rightarrow> (take pos word @ [a] @ drop pos word, k1 + 1)
                 | None \<Rightarrow> (word, k1 + 1))
           else if error_type = Miss \<and> 4 \<le> length word then
             (let pos = random_randint rs k1 1 (length word - 2)
              in (take pos word @ drop (pos + 1) word, k1 + 1))
           else if error_type = Nearby then
             (let pos = random_randint rs k1 0 (length word - 1)
              in case char_at word pos of
                   Some c \<Rightarrow>
                     (let ch = lower c;
                          replacement = (case nearby ch of Some r \<Rightarrow> r | None \<Rightarrow> ch);
                          replacement' = (if isupper c then upper replacement else replacement)
                      in (take pos word @ [replacement'] @ drop (pos + 1) word, k1 + 1))
                 | None \<Rightarrow> (word, k1 + 1))
           else (word, k1))"

datatype mistake = Spelling | StrikethroughMistake | ErasureMistake

text \<open>
  \<^verbatim>\<open>random.choices(["spelling", "strikethrough", "erasure"], weights=[0.4, 0.4, 0.2], k=1)[0]\<close>:
  the cumulative weights are 0.4, 0.8 and 1.0.
\<close>

definition choose_mistake :: "rand_source \<Rightarrow> nat \<Rightarrow> mistake" where
  "choose_mistake rs k =
     (let x = random_random rs k * 1
      in if x < 4 / 10 then Spelling
         else if x < 8 / 10 then StrikethroughMistake
         else ErasureMistake)"

text \<open>The body of the loop of \<^verbatim>\<open>_apply_imperfections\<close>, for one word.\<close>

definition imperfect_word :: "rand_source \<Rightarrow> real \<Rightarrow> nat \<Rightarrow> string \<Rightarrow> segment \<times> nat" where
  "imperfect_word rs level k word =
     (if list_all isspace word
      then (\<lparr>seg_text = '' '', seg_type = Normal, correction = None\<rparr>, k)
      else
        let roll = random_random rs k;
            k1 = k + 1
        in if roll < level \<and> 2 < length word then
             (case choose_mistake rs k1 of
                Spelling \<Rightarrow>
                  (case make_spelling_error rs (k1 + 1) word of
                     (misspelled, k2) \<Rightarrow>
                       (\<lparr>seg_text = misspelled, seg_type = Error, correction = Some word\<rparr>, k2))
              | StrikethroughMistake \<Rightarrow>
                  (\<lparr>seg_text = word, seg_type = Strikethrough, correction = Some word\<rparr>, k1 + 1)
              | ErasureMistake \<Rightarrow>
                  (\<lparr>seg_text = word, seg_type = Erasure, correction = None\<rparr>, k1 + 1))
           else (\<lparr>seg_text = word, seg_type = Normal, correction = None\<rparr>, k1))"

fun imperfect_words :: "rand_source \<Rightarrow> real \<Rightarrow> nat \<Rightarrow> string list \<Rightarrow> segment list \<times> nat" where
  "imperfect_words rs level k [] = ([], k)"
| "imperfect_words rs level k (word # rest) =
     (case imperfect_word rs level k word of
        (seg, k1) \<Rightarrow>
          (case imperfect_words rs level k1 rest of (segs, k2) \<Rightarrow> (seg # segs, k2)))"

text \<open>
  \<^verbatim>\<open>_apply_imperfections\<close>; \<open>level\<close> is \<^verbatim>\<open>self.imperfection_level\<close>. The result is the list
  of segments and the number of calls made to the random module afterwards.
\<close>

definition apply_imperfections :: "rand_source \<Rightarrow> real \<Rightarrow> nat \<Rightarrow> string \<Rightarrow> segment list \<times> nat" where
  "apply_imperfections rs level k txt = imperfect_words rs level k (py_split txt)"

text \<open>
  The text a segment stands for: the word it was made from. A misspelled segment
  carries it as its correction, every other segment as its text.
\<close>

definition seg_source :: "segment \<Rightarrow> string" where
  "seg_source seg =
     (if seg_type seg = Error
      then (case correction seg of Some w \<Rightarrow> w | None \<Rightarrow> seg_text seg)
      else seg_text seg)"

text \<open>
  The tokens of a line in the sense of the specification ("every word and whitespace
  token"): the maximal runs of whitespace and of non-whitespace characters, in order.
  This definition follows the specification's words, not the source.
\<close>

function spec_tokens :: "string \<Rightarrow> string list" where
  "spec_tokens [] = []"
| "spec_tokens (c # cs) =
     (if isspace c
      then takeWhile isspace (c # cs) # spec_tokens (dropWhile isspace cs)
      else takeWhile (\<lambda>x. \<not> isspace x) (c # cs) # spec_tokens (dropWhile (\<lambda>x. \<not> isspace x) cs))"
  by pat_completeness auto
termination
  by (relation "measure length") (auto simp: length_dropWhile_le less_Suc_eq_le)

section \<open>Drawing\<close>

text \<open>
  The calls made on a PIL \<^verbatim>\<open>ImageDraw\<close>, in order: \<^verbatim>\<open>draw.line(points, fill, width)\<close> and
  \<^verbatim>\<open>draw.text(position, text, font, fill)\<close>. Image coordinates grow to the right and
  downwards.
\<close>

type_synonym point = "real \<times> real"

type_synonym rgba = "nat \<times> nat \<times> nat \<times> nat"

datatype font = MainFont | SmallFont

datatype draw_op =
    DrawLine "point list" rgba nat
  | DrawText point string font rgba

text \<open>\<^verbatim>\<open>range(start, stop, step)\<close> for a positive step.\<close>

definition py_range :: "int \<Rightarrow> int \<Rightarrow> int \<Rightarrow> int list" where
  "py_range start stop step =
     map (\<lambda>i. start + step * int i) [0 ..< nat ((stop - start + step - 1) div step)]"

section \<open>Paper texture: ruled lines (paper_renderer.py)\<close>

definition line_color :: rgba where
  "line_color = (190, 210, 230, 128)"

definition margin_color :: rgba where
  "margin_color = (240, 130, 130, 100)"

text \<open>
  The points of one rule at height \<open>y\<close>: one sample every 15 pixels, each with its own
  \<^verbatim>\<open>random.uniform(-0.3, 0.3)\<close> added to \<open>y\<close>; \<open>k\<close> counts the calls made to the random
  module before the rule.
\<close>

definition rule_points :: "rand_source \<Rightarrow> nat \<Rightarrow> int \<Rightarrow> int \<Rightarrow> point list" where
  "rule_points rs k w y =
     map (\<lambda>(i, x). (real_of_int x, real_of_int y + random_uniform rs (k + i) (- (3 / 10)) (3 / 10)))
       (enumerate 0 (py_range 0 w 15))"

text \<open>
  The \<^verbatim>\<open>while y < h - 20\<close> loop of \<^verbatim>\<open>_draw_lined\<close>. It does not end when the spacing is
  not positive and the first rule is above the bottom margin, so it is a partial
  function: \<open>None\<close> is the run that never returns.
\<close>

partial_function (option) lined_loop ::
  "rand_source \<Rightarrow> int \<Rightarrow> int \<Rightarrow> int \<Rightarrow> int \<Rightarrow> nat \<Rightarrow> draw_op list \<Rightarrow> (draw_op list \<times> nat) option" where
  "lined_loop rs w h spacing y k ops =
     (if y < h - 20
      then
        (let points = rule_points rs k w y;
             ops' = (if 1 < length points then ops @ [DrawLine points line_color 1] else ops)
         in lined_loop rs w h spacing (y + spacing) (k + length points) ops')
      else Some (ops, k))"

declare lined_loop.simps [code]

text \<open>
  \<^verbatim>\<open>_draw_lined\<close>; \<open>cfg_spacing\<close> is the entry \<^verbatim>\<open>"line_spacing"\<close> of the configuration
  dictionary, \<open>None\<close> when the key is missing.
\<close>

definition draw_lined ::
  "rand_source \<Rightarrow> nat \<Rightarrow> int \<Rightarrow> int \<Rightarrow> int option \<Rightarrow> (draw_op list \<times> nat) option" where
  "draw_lined rs k w h cfg_spacing =
     (let spacing = (case cfg_spacing of None \<Rightarrow> 28 | Some s \<Rightarrow> s);
          margin_x = py_int (real_of_int w * (12 / 100));
          margin = DrawLine [(real_of_int margin_x, 0), (real_of_int margin_x, real_of_int h)]
                     margin_color 2
      in lined_loop rs w h spacing (spacing + 40) k [margin])"

text \<open>The number of horizontal rule lines among the drawing calls.\<close>

definition is_rule :: "draw_op \<Rightarrow> bool" where
  "is_rule op = (case op of DrawLine ps c wd \<Rightarrow> c = line_color \<and> wd = 1 | DrawText p t f c \<Rightarrow> False)"

definition horizontal_rules :: "draw_op list \<Rightarrow> nat" where
  "horizontal_rules ops = length (filter is_rule ops)"

section \<open>Stroke renderer (handwriting_engine.py)\<close>

text \<open>
  The fields of \<^verbatim>\<open>HandwritingEngine\<close> that \<^verbatim>\<open>_render_line\<close> reads: the parsed ink colour
  and the font size. \<^verbatim>\<open>self.font\<close> is \<open>MainFont\<close> and \<^verbatim>\<open>self.small_font\<close>, loaded at
  0.75 of the font size, is \<open>SmallFont\<close>.
\<close>

record engine =
  ink_rgb :: "nat \<times> nat \<times> nat"
  eng_font_size :: int

text \<open>
  \<^verbatim>\<open>draw.textbbox(position, text, font)\<close> measures with the font file, which is not part
  of the sources; the renderer is modelled for any such measure. A bounding box is
  (left, top, right, bottom), written \<open>(x0, y0, x1, y1)\<close>.
\<close>

type_synonym bbox = "real \<times> real \<times> real \<times> real"

type_synonym textbbox = "point \<Rightarrow> string \<Rightarrow> font \<Rightarrow> bbox"

datatype render_error = KeyError string

definition with_alpha :: "nat \<times> nat \<times> nat \<Rightarrow> nat \<Rightarrow> rgba" where
  "with_alpha c a = (fst c, fst (snd c), snd (snd c), a)"

text \<open>The sampled points of the wavy strike line, one every 4 pixels.\<close>

definition strike_points :: "rand_source \<Rightarrow> nat \<Rightarrow> real \<Rightarrow> real \<Rightarrow> real \<Rightarrow> point list" where
  "strike_points rs k left right mid_y =
     map (\<lambda>(i, px). (real_of_int px, mid_y + random_uniform rs (k + i) (- (3 / 2)) (3 / 2)))
       (enumerate 0 (py_range (py_int (left - 3)) (py_int (right + 3)) 4))"

text \<open>
  The body of the loop of \<^verbatim>\<open>_render_line\<close> for one segment: the drawing calls it makes,
  the new cursor and the new count of calls to the random module. A segment of type
  strikethrough or error without a correction raises KeyError.
\<close>

definition render_segment ::
  "engine \<Rightarrow> textbbox \<Rightarrow> real \<Rightarrow> real \<Rightarrow> rand_source \<Rightarrow> real \<Rightarrow> nat \<Rightarrow> segment \<Rightarrow>
   render_error + (draw_op list \<times> real \<times> nat)" where
  "render_segment eng tb scale y rs cursor_x k seg =
     (let txt = seg_text seg;
          jx = random_uniform rs k (- 2) 2 * scale;
          jy = random_uniform rs (k + 1) (- (3 / 2)) (3 / 2) * scale;
          pressure = random_uniform rs (k + 2) (3 / 4) 1;
          alpha = nat (py_int (255 * pressure));
          ink = with_alpha (ink_rgb eng) alpha;
          pos_x = cursor_x + jx;
          pos_y = y + jy;
          k3 = k + 3;
          drawn =
            (case seg_type seg of
               Strikethrough \<Rightarrow>
                 (case tb (pos_x, pos_y) txt MainFont of
                    (x0, y0, x1, y1) \<Rightarrow>
                      let mid_y = (y0 + y1) / 2;
                          points = strike_points rs k3 x0 x1 mid_y;
                          k4 = k3 + length points;
                          strike = (if 1 < length points
                                    then [DrawLine points (with_alpha (ink_rgb eng) 200) 2]
                                    else []);
                          corr_y = y0 - real_of_int (eng_font_size eng) * scale - 2;
                          corr_ink = with_alpha (ink_rgb eng)
                                       (nat (py_int (real alpha * (9 / 10))))
                      in case correction seg of
                           None \<Rightarrow> Inl (KeyError ''correction'')
                         | Some corr \<Rightarrow>
                             Inr ([DrawText (pos_x, pos_y) txt MainFont ink] @ strike @
                                  [DrawText (pos_x + random_uniform rs k4 (- 3) 3, corr_y) corr
                                     SmallFont corr_ink],
                                  k4 + 1))
             | Error \<Rightarrow>
                 (case tb (pos_x, pos_y) txt MainFont of
                    (x0, y0, x1, y1) \<Rightarrow>
                      let mid_y = (y0 + y1) / 2;
                          corr_y = y0 - real_of_int (eng_font_size eng) * scale - 2
                      in case correction seg of
                           None \<Rightarrow> Inl (KeyError ''correction'')
                         | Some corr \<Rightarrow>
                             Inr ([DrawText (pos_x, pos_y) txt MainFont ink,
                                   DrawLine [(x0, mid_y), (x1, mid_y)]
                                     (with_alpha (ink_rgb eng) 150) 1,
                                   DrawText (pos_x + random_uniform rs k3 (- 2) 2, corr_y) corr
                                     SmallFont
                                     (with_alpha (ink_rgb eng)
                                        (nat (py_int (real alpha * (9 / 10)))))],
                                  k3 + 1))
             | Erasure \<Rightarrow>
                 Inr ([DrawText (pos_x, pos_y) txt MainFont (with_alpha (ink_rgb eng) 60),
                       DrawText (pos_x + random_uniform rs k3 1 3,
                                 pos_y + random_uniform rs (k3 + 1) (- 1) 1) txt MainFont ink],
                      k3 + 2)
             | Normal \<Rightarrow> Inr ([DrawText (pos_x, pos_y) txt MainFont ink], k3))
      in case drawn of
           Inl e \<Rightarrow> Inl e
         | Inr (ops, k5) \<Rightarrow>
             (case tb (pos_x, pos_y) txt MainFont of
                (x0, y0, x1, y1) \<Rightarrow>
                  Inr (ops, cursor_x + ((x1 - x0) + random_uniform rs k5 4 8 * scale),
                       k5 + 1)))"

text \<open>\<^verbatim>\<open>_render_line\<close>: the segments of a line, from left to right.\<close>

fun render_line ::
  "engine \<Rightarrow> textbbox \<Rightarrow> real \<Rightarrow> real \<Rightarrow> rand_source \<Rightarrow> real \<Rightarrow> nat \<Rightarrow> segment list \<Rightarrow>
   render_error + (draw_op list \<times> real \<times> nat)" where
  "render_line eng tb scale y rs cursor_x k [] = Inr ([], cursor_x, k)"
| "render_line eng tb scale y rs cursor_x k (seg # segs) =
     (case render_segment eng tb scale y rs cursor_x k seg of
        Inl e \<Rightarrow> Inl e
      | Inr (ops, cursor', k') \<Rightarrow>
          (case render_line eng tb scale y rs cursor' k' segs of
             Inl e \<Rightarrow> Inl e
           | Inr (ops', cursor'', k'') \<Rightarrow> Inr (ops @ ops', cursor'', k'')))"

text \<open>
  Example data: an engine with the default ink and font size, a measure that gives
  every character a cell 10 wide and 20 high, and a misspelled segment.
\<close>

definition default_engine :: engine where
  "default_engine = \<lparr>ink_rgb = (26, 26, 46), eng_font_size = 18\<rparr>"

definition cell_bbox :: textbbox where
  "cell_bbox p t f = (fst p, snd p, fst p + 10 * real (length t), snd p + 20)"

definition misspelled_helo :: segment where
  "misspelled_helo = \<lparr>seg_text = ''hleo'', seg_type = Error, correction = Some ''helo''\<rparr>"

section \<open>Raster images (PIL)\<close>

text \<open>
  A PIL image: its mode, its size, and the pixel at each position inside it. A pixel is
  (red, green, blue, alpha), each an 8-bit value; an image of mode RGB has no alpha
  channel and its pixels carry alpha 255 in the model.
\<close>

datatype mode = RGB | RGBA

type_synonym pixel = "8 word \<times> 8 word \<times> 8 word \<times> 8 word"

record image =
  img_mode :: mode
  img_width :: int
  img_height :: int
  pixel_at :: "int \<Rightarrow> int \<Rightarrow> pixel"

datatype pil_error = ValueError string | UnidentifiedImageError

text \<open>
  What the sources leave to PIL and what no claim depends on is a parameter: the
  resampling filter of \<^verbatim>\<open>resize\<close> (the pixel of the resized image at a position), the
  "over" operator of \<^verbatim>\<open>Image.alpha_composite\<close> on one pixel, and the decoder of
  \<^verbatim>\<open>Image.open\<close> (\<open>None\<close> when the bytes are not an image).
\<close>

record pil =
  resample :: "image \<Rightarrow> int \<Rightarrow> int \<Rightarrow> int \<Rightarrow> int \<Rightarrow> pixel"
  over :: "pixel \<Rightarrow> pixel \<Rightarrow> pixel"
  decode :: "string \<Rightarrow> image option"

definition alpha_of :: "pixel \<Rightarrow> 8 word" where
  "alpha_of p = snd (snd (snd p))"

definition opaque :: "pixel \<Rightarrow> pixel" where
  "opaque p = (fst p, fst (snd p), fst (snd (snd p)), 255)"

text \<open>\<^verbatim>\<open>image.convert(mode)\<close> between RGB and RGBA.\<close>

definition image_convert :: "image \<Rightarrow> mode \<Rightarrow> image" where
  "image_convert img m =
     \<lparr>img_mode = m, img_width = img_width img, img_height = img_height img,
      pixel_at = (if m = RGB \<or> img_mode img = RGB
                  then (\<lambda>x y. opaque (pixel_at img x y)) else pixel_at img)\<rparr>"

text \<open>
  \<^verbatim>\<open>image.resize((w, h), LANCZOS)\<close>: a copy when the size is unchanged, a ValueError when
  the new width or height is below 1.
\<close>

definition image_resize :: "pil \<Rightarrow> image \<Rightarrow> int \<Rightarrow> int \<Rightarrow> pil_error + image" where
  "image_resize env img w h =
     (if img_width img = w \<and> img_height img = h then Inr img
      else if w < 1 \<or> h < 1 then Inl (ValueError ''height and width must be > 0'')
      else Inr \<lparr>img_mode = img_mode img, img_width = w, img_height = h,
                pixel_at = resample env img w h\<rparr>)"

text \<open>\<^verbatim>\<open>Image.alpha_composite(dst, src)\<close>: both images RGBA and of the same size.\<close>

definition alpha_composite :: "pil \<Rightarrow> image \<Rightarrow> image \<Rightarrow> pil_error + image" where
  "alpha_composite env dst src =
     (if img_mode dst \<noteq> RGBA \<or> img_mode src \<noteq> RGBA
      then Inl (ValueError ''image has wrong mode'')
      else if img_width dst \<noteq> img_width src \<or> img_height dst \<noteq> img_height src
      then Inl (ValueError ''images do not match'')
      else Inr (dst\<lparr>pixel_at := (\<lambda>x y. over env (pixel_at dst x y) (pixel_at src x y))\<rparr>))"

text \<open>
  \<^verbatim>\<open>dst.paste(src, (x, y), mask)\<close> with the alpha band of an RGBA image as the mask. PIL
  mixes each band of the two pixels by the mask value: where the mask is 255 the
  pasted pixel is copied, where it is 0 the pixel of \<open>dst\<close> is kept, and values in
  between mix the two, in 8-bit arithmetic with rounding. The part of \<open>src\<close> outside
  \<open>dst\<close> is cropped.
\<close>

definition blend8 :: "8 word \<Rightarrow> 8 word \<Rightarrow> 8 word \<Rightarrow> 8 word" where
  "blend8 m in1 in2 =
     (let t = unat in1 * (255 - unat m) + unat in2 * unat m + 128
      in of_nat ((t div 256 + t) div 256))"

definition blend_pixel :: "8 word \<Rightarrow> pixel \<Rightarrow> pixel \<Rightarrow> pixel" where
  "blend_pixel m d s =
     (case d of (dr, dg, db, da) \<Rightarrow>
      case s of (sr, sg, sb, sa) \<Rightarrow>
        (blend8 m dr sr, blend8 m dg sg, blend8 m db sb, blend8 m da sa))"

definition inside :: "image \<Rightarrow> int \<Rightarrow> int \<Rightarrow> bool" where
  "inside img x y = (0 \<le> x \<and> x < img_width img \<and> 0 \<le> y \<and> y < img_height img)"

definition image_paste :: "image \<Rightarrow> image \<Rightarrow> int \<Rightarrow> int \<Rightarrow> image \<Rightarrow> image" where
  "image_paste dst src x y msk =
     dst\<lparr>pixel_at :=
           (\<lambda>px py. if inside dst px py \<and> inside src (px - x) (py - y)
                     then blend_pixel (alpha_of (pixel_at msk (px - x) (py - y)))
                            (pixel_at dst px py) (pixel_at src (px - x) (py - y))
                     else pixel_at dst px py)\<rparr>"

section \<open>Diagrams (diagram_converter.py, layout_composer.py)\<close>

text \<open>
  The diagram dictionaries. A key that may be missing is an option; the value under
  \<^verbatim>\<open>"converted_image"\<close> is a PIL image or raw bytes.
\<close>

datatype converted = ConvImage image | ConvBytes string

record diagram =
  image_hash :: string
  dg_image :: "image option"
  image_bytes :: "string option"
  converted_image :: "converted option"
  from_cache :: "bool option"
  dg_warning :: "string option"
  dg_x :: "real option"
  dg_y :: "real option"
  dg_width :: "real option"
  dg_height :: "real option"

subsection \<open>Layer compositor\<close>

text \<open>
  The target rectangle of a diagram in pixels: \<^verbatim>\<open>int(diagram.get("x", 0) * scale)\<close> and
  so on, the width and height defaulting to those of the converted image.
\<close>

definition target_box :: "diagram \<Rightarrow> image \<Rightarrow> real \<Rightarrow> int \<times> int \<times> int \<times> int" where
  "target_box d conv scale =
     (py_int ((case dg_x d of None \<Rightarrow> 0 | Some v \<Rightarrow> v) * scale),
      py_int ((case dg_y d of None \<Rightarrow> 0 | Some v \<Rightarrow> v) * scale),
      py_int ((case dg_width d of None \<Rightarrow> real_of_int (img_width conv) | Some v \<Rightarrow> v) * scale),
      py_int ((case dg_height d of None \<Rightarrow> real_of_int (img_height conv) | Some v \<Rightarrow> v) * scale))"

text \<open>The image under \<^verbatim>\<open>"converted_image"\<close>; raw bytes are opened and converted to RGBA.\<close>

definition converted_raster :: "pil \<Rightarrow> converted \<Rightarrow> pil_error + image" where
  "converted_raster env c =
     (case c of
        ConvImage img \<Rightarrow> Inr img
      | ConvBytes b \<Rightarrow>
          (case decode env b of
             None \<Rightarrow> Inl UnidentifiedImageError
           | Some img \<Rightarrow> Inr (image_convert img RGBA)))"

text \<open>The body of the loop over the diagrams in \<^verbatim>\<open>compose_page\<close>.\<close>

definition paste_diagram :: "pil \<Rightarrow> real \<Rightarrow> image \<Rightarrow> diagram \<Rightarrow> pil_error + image" where
  "paste_diagram env scale page d =
     (case converted_image d of
        None \<Rightarrow> Inr page
      | Some c \<Rightarrow>
          (case converted_raster env c of
             Inl e \<Rightarrow> Inl e
           | Inr conv \<Rightarrow>
               (case target_box d conv scale of
                  (x, y, w, h) \<Rightarrow>
                    (case image_resize env conv w h of
                       Inl e \<Rightarrow> Inl e
                     | Inr resized \<Rightarrow>
                         let rgba = (if img_mode resized \<noteq> RGBA
                                     then image_convert resized RGBA else resized)
                         in Inr (image_paste page rgba x y rgba)))))"

fun paste_diagrams :: "pil \<Rightarrow> real \<Rightarrow> image \<Rightarrow> diagram list \<Rightarrow> pil_error + image" where
  "paste_diagrams env scale page [] = Inr page"
| "paste_diagrams env scale page (d # ds) =
     (case paste_diagram env scale page d of
        Inl e \<Rightarrow> Inl e
      | Inr page' \<Rightarrow> paste_diagrams env scale page' ds)"

text \<open>\<^verbatim>\<open>compose_page\<close>; the text layer may be \<^verbatim>\<open>None\<close>.\<close>

definition text_over_paper :: "pil \<Rightarrow> image \<Rightarrow> image option \<Rightarrow> pil_error + image" where
  "text_over_paper env page text_layer =
     (case text_layer of
        None \<Rightarrow> Inr page
      | Some layer \<Rightarrow>
          (case (if img_width layer \<noteq> img_width page \<or> img_height layer \<noteq> img_height page
                 then image_resize env layer (img_width page) (img_height page)
                 else Inr layer) of
             Inl e \<Rightarrow> Inl e
           | Inr layer' \<Rightarrow> alpha_composite env page layer'))"

definition compose_page ::
  "pil \<Rightarrow> image \<Rightarrow> image option \<Rightarrow> diagram list \<Rightarrow> real \<Rightarrow> pil_error + image" where
  "compose_page env paper text_layer diagrams scale =
     (case text_over_paper env (image_convert paper RGBA) text_layer of
        Inl e \<Rightarrow> Inl e
      | Inr page \<Rightarrow>
          (case paste_diagrams env scale page diagrams of
             Inl e \<Rightarrow> Inl e
           | Inr page' \<Rightarrow> Inr (image_convert page' RGB)))"

text \<open>
  When \<^verbatim>\<open>compose_page\<close> raises nothing: the text layer is absent or RGBA and fits the
  page or can be resized to it, and every diagram that has a converted image has one
  that opens and a target size that \<^verbatim>\<open>resize\<close> accepts.
\<close>

definition layer_ok :: "image \<Rightarrow> image option \<Rightarrow> bool" where
  "layer_ok paper text_layer =
     (case text_layer of
        None \<Rightarrow> True
      | Some layer \<Rightarrow>
          img_mode layer = RGBA \<and>
          ((img_width layer = img_width paper \<and> img_height layer = img_height paper) \<or>
           (1 \<le> img_width paper \<and> 1 \<le> img_height paper)))"

definition diagram_ok :: "pil \<Rightarrow> real \<Rightarrow> diagram \<Rightarrow> bool" where
  "diagram_ok env scale d =
     (case converted_image d of
        None \<Rightarrow> True
      | Some c \<Rightarrow>
          (case converted_raster env c of
             Inl e \<Rightarrow> False
           | Inr conv \<Rightarrow>
               (case target_box d conv scale of
                  (x, y, w, h) \<Rightarrow>
                    (img_width conv = w \<and> img_height conv = h) \<or> (1 \<le> w \<and> 1 \<le> h))))"

text \<open>Example data: one-colour images, a PIL whose parameters are trivial, and diagrams.\<close>

definition solid :: "mode \<Rightarrow> int \<Rightarrow> int \<Rightarrow> pixel \<Rightarrow> image" where
  "solid m w h p = \<lparr>img_mode = m, img_width = w, img_height = h, pixel_at = (\<lambda>x y. p)\<rparr>"

definition plain_pil :: pil where
  "plain_pil =
     \<lparr>resample = (\<lambda>img w h x y. pixel_at img 0 0), over = (\<lambda>d s. d), decode = (\<lambda>b. None)\<rparr>"

definition diagram_at :: "image \<Rightarrow> real \<Rightarrow> real \<Rightarrow> real \<Rightarrow> real \<Rightarrow> diagram" where
  "diagram_at img x y w h =
     \<lparr>image_hash = ''h1'', dg_image = None, image_bytes = None,
      converted_image = Some (ConvImage img), from_cache = None, dg_warning = None,
      dg_x = Some x, dg_y = Some y, dg_width = Some w, dg_height = Some h\<rparr>"

subsection \<open>Diagram cache and converter\<close>

text \<open>
  A row of the table \<^verbatim>\<open>diagram_cache\<close> (class \<^verbatim>\<open>DiagramCache\<close> of models.py). The column
  \<^verbatim>\<open>image_hash\<close> is declared \<^verbatim>\<open>unique=True\<close>.
\<close>

record cache_entry =
  ce_image_hash :: string
  ce_diagram_type :: string
  original_path :: string
  converted_path :: string
  created_at :: nat
  last_accessed :: nat

text \<open>
  The converter's settings, and the state it works on: the files of the storage
  directory that hold images, and the rows of the index (\<open>None\<close> when the converter
  was made without a database session).
\<close>

record converter =
  api_key :: string
  cache_dir :: string

record cache_state =
  files :: "string \<rightharpoonup> image"
  index :: "cache_entry list option"

datatype db_error = IntegrityError string

definition cached_path :: "converter \<Rightarrow> string \<Rightarrow> string" where
  "cached_path cv h = cache_dir cv @ ''/'' @ h @ ''.png''"

definition original_file :: "converter \<Rightarrow> string \<Rightarrow> string" where
  "original_file cv h = cache_dir cv @ ''/'' @ h @ ''_original.png''"

text \<open>\<^verbatim>\<open>db.query(DiagramCache).filter(DiagramCache.image_hash == img_hash).first()\<close>\<close>

definition find_entry :: "cache_entry list \<Rightarrow> string \<Rightarrow> cache_entry option" where
  "find_entry rows h = find (\<lambda>e. ce_image_hash e = h) rows"

text \<open>\<^verbatim>\<open>cache_entry.last_accessed = datetime.utcnow(); db.commit()\<close> on the row found.\<close>

fun touch :: "cache_entry list \<Rightarrow> string \<Rightarrow> nat \<Rightarrow> cache_entry list" where
  "touch [] h now = []"
| "touch (e # rows) h now =
     (if ce_image_hash e = h then e\<lparr>last_accessed := now\<rparr> # rows else e # touch rows h now)"

text \<open>
  \<^verbatim>\<open>db.add(cache_entry); db.commit()\<close>: the insert of a second row with the same
  \<^verbatim>\<open>image_hash\<close> violates the unique constraint and the commit raises IntegrityError.
\<close>

definition insert_entry :: "cache_entry list \<Rightarrow> cache_entry \<Rightarrow> db_error + cache_entry list" where
  "insert_entry rows e =
     (case find_entry rows (ce_image_hash e) of
        Some old \<Rightarrow> Inl (IntegrityError ''UNIQUE constraint failed: diagram_cache.image_hash'')
      | None \<Rightarrow> Inr (rows @ [e]))"

text \<open>
  What one POST to the stylization service does: status 200 with a decoded image
  (already converted to RGBA) or without a usable one, status 429, another status, or
  an exception raised inside the \<^verbatim>\<open>try\<close> (by the request, the JSON or the decoding).
\<close>

datatype response = Status200 "image option" | Status429 | StatusOther nat | Raises

text \<open>What the loop does that can be observed: a POST of an attempt, a sleep of some seconds.\<close>

datatype event = Post nat | Sleep nat

text \<open>
  \<^verbatim>\<open>for attempt in range(3)\<close> of \<^verbatim>\<open>_call_imagen\<close>, over the attempts that are left; \<open>api\<close>
  gives the response to each attempt.
\<close>

fun attempt_loop :: "(nat \<Rightarrow> response) \<Rightarrow> nat list \<Rightarrow> image option \<times> event list" where
  "attempt_loop api [] = (None, [])"
| "attempt_loop api (attempt # rest) =
     (case api attempt of
        Status200 (Some img) \<Rightarrow> (Some img, [Post attempt])
      | Status200 None \<Rightarrow>
          (case attempt_loop api rest of (r, ev) \<Rightarrow> (r, Post attempt # ev))
      | Status429 \<Rightarrow>
          (case attempt_loop api rest of
             (r, ev) \<Rightarrow> (r, Post attempt # Sleep (2 ^ attempt) # ev))
      | StatusOther code \<Rightarrow> (None, [Post attempt])
      | Raises \<Rightarrow>
          (case attempt_loop api rest of
             (r, ev) \<Rightarrow>
               (r, Post attempt # (if attempt < 2 then [Sleep (2 ^ attempt)] else []) @ ev)))"

text \<open>\<^verbatim>\<open>_call_imagen\<close>: nothing is sent for a diagram with neither bytes nor image.\<close>

definition call_imagen :: "(nat \<Rightarrow> response) \<Rightarrow> diagram \<Rightarrow> image option \<times> event list" where
  "call_imagen api d =
     (if image_bytes d \<noteq> None \<or> dg_image d \<noteq> None
      then attempt_loop api [0, 1, 2]
      else (None, []))"

text \<open>The index lookup of step 2: the row for the hash and the image its blob holds.\<close>

definition db_hit :: "cache_state \<Rightarrow> string \<Rightarrow> (cache_entry \<times> image) option" where
  "db_hit st h =
     (case index st of
        None \<Rightarrow> None
      | Some rows \<Rightarrow>
          (case find_entry rows h of
             None \<Rightarrow> None
           | Some e \<Rightarrow>
               (case files st (converted_path e) of
                  None \<Rightarrow> None
                | Some img \<Rightarrow> Some (e, img))))"

definition key_configured :: "converter \<Rightarrow> bool" where
  "key_configured cv = (api_key cv \<noteq> [] \<and> api_key cv \<noteq> ''your_api_key_here'')"

text \<open>
  \<^verbatim>\<open>_convert_single\<close>: the state afterwards, the POSTs and sleeps made, and the diagram
  returned or the exception raised.
\<close>

definition convert_single ::
  "converter \<Rightarrow> nat \<Rightarrow> (nat \<Rightarrow> response) \<Rightarrow> cache_state \<Rightarrow> diagram \<Rightarrow>
   cache_state \<times> event list \<times> (db_error + diagram)" where
  "convert_single cv now api st d =
     (let h = image_hash d;
          path = cached_path cv h
      in case files st path of
           Some img \<Rightarrow>
             (st, [],
              Inr (d\<lparr>converted_image := Some (ConvImage (image_convert img RGBA)),
                     from_cache := Some True\<rparr>))
         | None \<Rightarrow>
             (case db_hit st h of
                Some (e, img) \<Rightarrow>
                  (st\<lparr>index := map_option (\<lambda>rows. touch rows h now) (index st)\<rparr>, [],
                   Inr (d\<lparr>converted_image := Some (ConvImage (image_convert img RGBA)),
                          from_cache := Some True\<rparr>))
              | None \<Rightarrow>
                  if \<not> key_configured cv
                  then
                    (st, [],
                     Inr (d\<lparr>converted_image :=
                              (case dg_image d of
                                 Some orig \<Rightarrow> Some (ConvImage orig)
                               | None \<Rightarrow> map_option ConvBytes (image_bytes d)),
                            dg_warning :=
                              Some ''No Imagen API key configured. Using original diagram.''\<rparr>))
                  else
                    (case call_imagen api d of
                       (Some img, ev) \<Rightarrow>
                         (let files1 = (files st)(path \<mapsto> img)
                          in case index st of
                               None \<Rightarrow>
                                 (st\<lparr>files := files1\<rparr>, ev,
                                  Inr (d\<lparr>converted_image := Some (ConvImage img)\<rparr>))
                             | Some rows \<Rightarrow>
                                 (let orig_path = original_file cv h;
                                      files2 = (case dg_image d of
                                                  Some orig \<Rightarrow> files1(orig_path \<mapsto> orig)
                                                | None \<Rightarrow> files1);
                                      entry = \<lparr>ce_image_hash = h, ce_diagram_type = ''generic'',
                                               original_path = orig_path, converted_path = path,
                                               created_at = now, last_accessed = now\<rparr>
                                  in case insert_entry rows entry of
                                       Inl err \<Rightarrow> (st\<lparr>files := files2\<rparr>, ev, Inl err)
                                     | Inr rows' \<Rightarrow>
                                         (st\<lparr>files := files2, index := Some rows'\<rparr>, ev,
                                          Inr (d\<lparr>converted_image := Some (ConvImage img)\<rparr>))))
                     | (None, ev) \<Rightarrow>
                         (st, ev,
                          Inr (d\<lparr>converted_image :=
                                   (case dg_image d of
                                      Some orig \<Rightarrow> Some (ConvImage orig)
                                    | None \<Rightarrow> converted_image d),
                                 dg_warning := Some ''AI conversion failed. Using original.''\<rparr>)))))"

text \<open>
  \<^verbatim>\<open>convert_diagrams\<close>: the diagrams in order; \<open>apis\<close> gives the responses of the service
  for each diagram by its position. An exception ends the loop.
\<close>

fun convert_diagrams ::
  "converter \<Rightarrow> nat \<Rightarrow> (nat \<Rightarrow> nat \<Rightarrow> response) \<Rightarrow> nat \<Rightarrow> cache_state \<Rightarrow> diagram list \<Rightarrow>
   cache_state \<times> event list \<times> (db_error + diagram list)" where
  "convert_diagrams cv now apis i st [] = (st, [], Inr [])"
| "convert_diagrams cv now apis i st (d # ds) =
     (case convert_single cv now (apis i) st d of
        (st1, ev1, Inl err) \<Rightarrow> (st1, ev1, Inl err)
      | (st1, ev1, Inr d') \<Rightarrow>
          (case convert_diagrams cv now apis (i + 1) st1 ds of
             (st2, ev2, Inl err) \<Rightarrow> (st2, ev1 @ ev2, Inl err)
           | (st2, ev2, Inr ds') \<Rightarrow> (st2, ev1 @ ev2, Inr (d' # ds'))))"

text \<open>
  The lookup of a diagram is a miss when neither the blob named by its hash nor the
  blob of an index row for its hash exists.
\<close>

definition cache_miss :: "converter \<Rightarrow> cache_state \<Rightarrow> diagram \<Rightarrow> bool" where
  "cache_miss cv st d =
     (files st (cached_path cv (image_hash d)) = None \<and> db_hit st (image_hash d) = None)"



text \<open>
  Example data: a converter with a key, an extracted diagram, a stylized image, and a
  state whose index has a row for the diagram's hash while no blob exists.
\<close>

definition keyed_converter :: converter where
  "keyed_converter = \<lparr>api_key = ''secret'', cache_dir = ''storage/cache/diagrams''\<rparr>"

definition extracted_diagram :: diagram where
  "extracted_diagram =
     \<lparr>image_hash = ''abc'', dg_image = Some (solid RGB 2 2 (10, 10, 10, 255)),
      image_bytes = Some ''PNG'', converted_image = None, from_cache = None,
      dg_warning = None, dg_x = Some 72, dg_y = Some 72, dg_width = Some 100,
      dg_height = Some 50\<rparr>"

definition stylized :: image where
  "stylized = solid RGBA 2 2 (20, 20, 20, 200)"

definition stale_entry :: cache_entry where
  "stale_entry =
     \<lparr>ce_image_hash = ''abc'', ce_diagram_type = ''generic'',
      original_path = ''storage/cache/diagrams/abc_original.png'',
      converted_path = ''storage/cache/diagrams/abc.png'', created_at = 1, last_accessed = 1\<rparr>"

definition stale_state :: cache_state where
  "stale_state = \<lparr>files = Map.empty, index = Some [stale_entry]\<rparr>"



text \<open>
  Two random sources make the same \<open>i\<close>-th draw when the \<open>i\<close>-th call to the module
  returns the same value from both, whichever function is called.
\<close>

definition same_draw :: "rand_source \<Rightarrow> rand_source \<Rightarrow> nat \<Rightarrow> bool" where
  "same_draw rs rs' i =
     (rand_float rs i = rand_float rs' i \<and> rand_below rs i = rand_below rs' i)"

text \<open>Example random sources: one that always draws 0, and one that does so eight times.\<close>

definition zero_source :: rand_source where
  "zero_source = \<lparr>rand_float = (\<lambda>k. 0), rand_below = (\<lambda>k n. 0)\<rparr>"

definition late_source :: rand_source where
  "late_source =
     \<lparr>rand_float = (\<lambda>k. if k < 8 then 0 else 1 / 2),
      rand_below = (\<lambda>k n. if k < 8 then 0 else 1)\<rparr>"

text \<open>Example data: a default configuration and jobs in each terminal state.\<close>

definition default_config :: process_config where
  "default_config =
     \<lparr>handwriting_style = ''Caveat'', imperfection_level = 7 / 100, paper_type = ''lined'',
      ink_color = ''#1a1a2e'', line_spacing = 28, font_size = 18, enable_smudges = True,
      enable_coffee_stains = False, enable_page_shadows = True, enable_annotations = False\<rparr>"

definition example_job :: "job_status \<Rightarrow> job" where
  "example_job s =
     \<lparr>job_filename = ''notes.pdf'', job_status = s, job_config = None, num_pages = 8,
      progress = 0, current_stage = NoStage, upload_path = Some ''uploads/j1/original.pdf'',
      result_path = None, error_message = None, updated_at = 0, completed_at = None\<rparr>"

definition plain_page :: page_env where
  "plain_page = \<lparr>has_images = False, fault = None\<rparr>"

definition eight_page_run :: run_env where
  "eight_page_run =
     \<lparr>pdf_exists = True, pages = replicate 8 plain_page, export_fault = None,
      result_file = ''results/j1/result.pdf''\<rparr>"


section \<open>Properties of the job state machine and of the progress values\<close>

text \<open>
  C4, as stated, fails for Failed: \<^verbatim>\<open>process_document\<close> guards only against
  Processing and Completed, so a Failed job is accepted and becomes Processing again,
  with its progress reset to 0.
\<close>

theorem failed_job_is_restarted:
  "job_status (example_job FAILED) = FAILED \<and>
   process_document [''j1'' \<mapsto> example_job FAILED] 7 ''j1'' default_config =
     (Inr \<lparr>resp_job_id = ''j1'', resp_status = ''processing'',
            resp_message = ''Processing started. Use /status endpoint to track progress.''\<rparr>,
      [''j1'' \<mapsto> (example_job FAILED)\<lparr>job_config := Some default_config,
                       job_status := PROCESSING, progress := 0, current_stage := Starting,
                       updated_at := 7\<rparr>],
      [(''j1'', default_config)])"
  by (simp add: process_document_def example_job_def)

text \<open>
  C4 (amended): Completed is terminal for the start-processing operation: the call is
  refused with HTTP 400, the job table is unchanged and no task is queued. Failed is
  not terminal: start-processing accepts a Failed job, sets it to Processing with
  progress 0 and the stage "Starting...", and queues a run.
\<close>

theorem completed_terminal_failed_restartable:
  assumes "db job_id = Some j"
  shows "(job_status j = COMPLETED \<longrightarrow>
            process_document db now job_id cfg =
              (Inl (HTTPException 400 ''Job already completed''), db, [])) \<and>
         (job_status j = FAILED \<longrightarrow>
            fst (snd (process_document db now job_id cfg)) =
              db(job_id \<mapsto> j\<lparr>job_config := Some cfg, job_status := PROCESSING, progress := 0,
                                current_stage := Starting, updated_at := now\<rparr>) \<and>
            snd (snd (process_document db now job_id cfg)) = [(job_id, cfg)])"
  using assms by (simp add: process_document_def)

theorem completed_terminal_failed_restartable_witness:
  "process_document [''j1'' \<mapsto> example_job COMPLETED] 7 ''j1'' default_config =
     (Inl (HTTPException 400 ''Job already completed''), [''j1'' \<mapsto> example_job COMPLETED], []) \<and>
   snd (snd (process_document [''j2'' \<mapsto> example_job FAILED] 7 ''j2'' default_config)) =
     [(''j2'', default_config)]"
proof -
  have c: "job_status (example_job COMPLETED) = COMPLETED"
    by (simp add: example_job_def)
  have f: "job_status (example_job FAILED) = FAILED"
    by (simp add: example_job_def)
  have one: "process_document [''j1'' \<mapsto> example_job COMPLETED] 7 ''j1'' default_config =
     (Inl (HTTPException 400 ''Job already completed''), [''j1'' \<mapsto> example_job COMPLETED], [])"
    using c completed_terminal_failed_restartable
      [of "[''j1'' \<mapsto> example_job COMPLETED]" "''j1''" "example_job COMPLETED" 7 default_config]
    by simp
  have two: "snd (snd (process_document [''j2'' \<mapsto> example_job FAILED] 7 ''j2'' default_config)) =
     [(''j2'', default_config)]"
    using f completed_terminal_failed_restartable
      [of "[''j2'' \<mapsto> example_job FAILED]" "''j2''" "example_job FAILED" 7 default_config]
    by simp
  from one two show ?thesis by simp
qed

text \<open>
  C3 at a run of eight pages without images: the progress values written are not
  monotone. Page 1 ends at 23 and page 2 starts at 15, because the sub-step
  increments (5, 10, 15, 18) do not shrink with the 80 / num_pages span of a page;
  the last page ends at 93 and the export step then writes 90.
\<close>

theorem progress_of_eight_pages_not_monotone:
  "progress_written
     (task_updates 1 [''j1'' \<mapsto> example_job PROCESSING] ''j1'' eight_page_run) =
     [5, 5, 10, 15, 23, 15, 20, 25, 33, 25, 30, 35, 43, 35, 40, 45, 53, 45, 50,
      55, 63, 55, 60, 65, 73, 65, 70, 75, 83, 75, 80, 85, 93, 90, 100] \<and>
   \<not> sorted (progress_written
     (task_updates 1 [''j1'' \<mapsto> example_job PROCESSING] ''j1'' eight_page_run))"
proof -
  have eq: "progress_written
     (task_updates 1 [''j1'' \<mapsto> example_job PROCESSING] ''j1'' eight_page_run) =
     [5, 5, 10, 15, 23, 15, 20, 25, 33, 25, 30, 35, 43, 35, 40, 45, 53, 45, 50,
      55, 63, 55, 60, 65, 73, 65, 70, 75, 83, 75, 80, 85, 93, 90, 100]"
    by (simp add: task_updates_def example_job_def eight_page_run_def plain_page_def
        page_run_def raises_at_def page_progress_base_def py_int_def progress_stage_def
        no_update_def progress_written_def List.map_filter_simps numeral_eq_Suc)
  show ?thesis unfolding eq by simp
qed

section \<open>Properties of the imperfection model\<close>

subsection \<open>Splitting a line\<close>

lemma py_split_Nil: "py_split [] = []"
  by (subst py_split.simps) simp

lemma py_split_space: "isspace c \<Longrightarrow> py_split (c # cs) = py_split (dropWhile isspace cs)"
  by (subst py_split.simps, subst (2) py_split.simps) simp

lemma py_split_nonspace:
  "\<not> isspace c \<Longrightarrow>
   py_split (c # cs) =
     (c # takeWhile (\<lambda>x. \<not> isspace x) cs) # py_split (dropWhile (\<lambda>x. \<not> isspace x) cs)"
  by (subst py_split.simps) simp

text \<open>The words of \<^verbatim>\<open>split()\<close> are the tokens of the line that are not whitespace.\<close>

lemma py_split_tokens: "py_split s = filter (\<lambda>t. \<not> list_all isspace t) (spec_tokens s)"
proof (induction s rule: spec_tokens.induct)
  case 1
  then show ?case by (simp add: py_split_Nil)
next
  case (2 c cs)
  show ?case
  proof (cases "isspace c")
    case True
    have "list_all isspace (takeWhile isspace cs)"
      by (simp add: list_all_iff) (meson set_takeWhileD)
    with True 2 show ?thesis by (simp add: py_split_space)
  next
    case False
    with 2 show ?thesis by (simp add: py_split_nonspace)
  qed
qed

lemma py_split_words: "w \<in> set (py_split s) \<Longrightarrow> \<not> list_all isspace w"
  by (simp add: py_split_tokens)

subsection \<open>One segment per word\<close>

lemma seg_source_word:
  "\<not> list_all isspace word \<Longrightarrow> seg_source (fst (imperfect_word rs level k word)) = word"
  by (simp add: imperfect_word_def seg_source_def Let_def split: mistake.splits prod.splits)

lemma seg_source_words:
  "\<forall>w\<in>set ws. \<not> list_all isspace w \<Longrightarrow>
   map seg_source (fst (imperfect_words rs level k ws)) = ws"
proof (induction ws arbitrary: k)
  case Nil
  then show ?case by simp
next
  case (Cons w ws)
  obtain seg k1 where w: "imperfect_word rs level k w = (seg, k1)"
    by (cases "imperfect_word rs level k w")
  obtain segs k2 where ws: "imperfect_words rs level k1 ws = (segs, k2)"
    by (cases "imperfect_words rs level k1 ws")
  have "seg_source seg = w"
    using seg_source_word [of w rs level k] Cons.prems w by simp
  moreover have "map seg_source segs = ws"
    using Cons.IH [of k1] Cons.prems ws by simp
  ultimately show ?case using w ws by simp
qed

text \<open>
  C7, as stated, fails at the line "a b": its tokens are the word "a", the whitespace
  token " " and the word "b", but the segments are only "a" and "b". \<^verbatim>\<open>text.split()\<close>
  drops the whitespace, so the branch of the loop that would emit a " " segment is
  never taken.
\<close>

theorem whitespace_token_not_covered:
  "spec_tokens ''a b'' = [''a'', '' '', ''b''] \<and>
   map seg_text (fst (apply_imperfections zero_source 0 0 ''a b'')) = [''a'', ''b''] \<and>
   map seg_source (fst (apply_imperfections zero_source 0 0 ''a b'')) \<noteq> spec_tokens ''a b''"
proof -
  have t: "spec_tokens ''a b'' = [''a'', '' '', ''b'']"
    by code_simp
  have w: "py_split ''a b'' = [''a'', ''b'']"
    by code_simp
  have s: "fst (apply_imperfections zero_source 0 0 ''a b'') =
     [\<lparr>seg_text = ''a'', seg_type = Normal, correction = None\<rparr>,
      \<lparr>seg_text = ''b'', seg_type = Normal, correction = None\<rparr>]"
    by (simp add: apply_imperfections_def w imperfect_word_def zero_source_def
        random_random_def isspace_def)
  show ?thesis unfolding t s by (simp add: seg_source_def)
qed

text \<open>
  C7 (amended): for every input line, the Imperfection Model outputs exactly one
  segment per whitespace-separated word, in the original order, and each segment
  stands for its word (as its text, or as its correction when the segment is
  misspelled). The words are the non-whitespace tokens of the line; whitespace tokens
  get no segment.
\<close>

theorem segments_cover_the_words_in_order:
  "map seg_source (fst (apply_imperfections rs level k txt)) = py_split txt \<and>
   py_split txt = filter (\<lambda>t. \<not> list_all isspace t) (spec_tokens txt)"
proof -
  have "\<forall>w\<in>set (py_split txt). \<not> list_all isspace w"
    by (simp add: py_split_words)
  then have "map seg_source (fst (imperfect_words rs level k (py_split txt))) = py_split txt"
    by (rule seg_source_words)
  then show ?thesis
    by (simp add: apply_imperfections_def py_split_tokens [symmetric])
qed

theorem segments_cover_the_words_in_order_witness:
  "map seg_source (fst (apply_imperfections zero_source (7 / 100) 0 ''  helo   world '')) =
     [''helo'', ''world'']"
proof -
  have "py_split ''  helo   world '' = [''helo'', ''world'']"
    by code_simp
  with segments_cover_the_words_in_order [of zero_source "7 / 100" 0 "''  helo   world ''"]
  show ?thesis by simp
qed

subsection \<open>The draws a run consumes\<close>

lemma make_spelling_error_count:
  "snd (make_spelling_error rs k w) =
     (if length w < 3 then k
      else if error_types ! randbelow rs k (length error_types) = Miss \<and> length w < 4
           then k + 1 else k + 2)"
  by (cases "error_types ! randbelow rs k (length error_types)")
     (simp_all add: make_spelling_error_def Let_def split: option.splits)

lemma make_spelling_error_ge: "k \<le> snd (make_spelling_error rs k w)"
  by (simp add: make_spelling_error_count)

lemma make_spelling_error_agree:
  assumes "\<forall>i. k \<le> i \<and> i < snd (make_spelling_error rs k w) \<longrightarrow> same_draw rs rs' i"
  shows "make_spelling_error rs' k w = make_spelling_error rs k w"
proof (cases "length w < 3")
  case True
  then show ?thesis by (simp add: make_spelling_error_def)
next
  case False
  with assms have "same_draw rs rs' k"
    by (simp add: make_spelling_error_count split: if_splits)
  then have e: "randbelow rs' k = randbelow rs k"
    by (simp add: same_draw_def randbelow_def fun_eq_iff)
  show ?thesis
  proof (cases "error_types ! randbelow rs k (length error_types) = Miss \<and> length w < 4")
    case True
    with False e show ?thesis by (simp add: make_spelling_error_def Let_def)
  next
    case second: False
    with False assms have "same_draw rs rs' (k + 1)"
      by (simp add: make_spelling_error_count)
    then have "random_randint rs' (k + 1) = random_randint rs (k + 1)"
      by (simp add: same_draw_def randbelow_def random_randint_def fun_eq_iff)
    with e show ?thesis by (simp add: make_spelling_error_def Let_def)
  qed
qed

lemma imperfect_word_count:
  "snd (imperfect_word rs level k w) =
     (if list_all isspace w then k
      else if random_random rs k < level \<and> 2 < length w
           then (case choose_mistake rs (k + 1) of
                   Spelling \<Rightarrow> snd (make_spelling_error rs (k + 2) w)
                 | StrikethroughMistake \<Rightarrow> k + 2
                 | ErasureMistake \<Rightarrow> k + 2)
           else k + 1)"
  by (simp add: imperfect_word_def Let_def split: mistake.splits prod.splits)

lemma imperfect_word_ge: "k \<le> snd (imperfect_word rs level k w)"
proof -
  have "k + 2 \<le> snd (make_spelling_error rs (k + 2) w)"
    by (rule make_spelling_error_ge)
  then show ?thesis by (simp add: imperfect_word_count split: mistake.splits)
qed

lemma imperfect_word_agree:
  assumes "\<forall>i. k \<le> i \<and> i < snd (imperfect_word rs level k w) \<longrightarrow> same_draw rs rs' i"
  shows "imperfect_word rs' level k w = imperfect_word rs level k w"
proof (cases "list_all isspace w")
  case True
  then show ?thesis by (simp add: imperfect_word_def)
next
  case False
  have ge: "k + 2 \<le> snd (make_spelling_error rs (k + 2) w)"
    by (rule make_spelling_error_ge)
  from False assms ge have "same_draw rs rs' k"
    by (simp add: imperfect_word_count split: if_splits mistake.splits)
  then have r: "random_random rs' k = random_random rs k"
    by (simp add: same_draw_def random_random_def)
  show ?thesis
  proof (cases "random_random rs k < level \<and> 2 < length w")
    case no: False
    then have "\<not> (random_random rs' k < level \<and> 2 < length w)"
      using r by simp
    with no False show ?thesis
      unfolding imperfect_word_def Let_def by (simp only: if_False)
  next
    case yes: True
    with False assms ge have "same_draw rs rs' (k + 1)"
      by (simp add: imperfect_word_count split: mistake.splits)
    then have c: "choose_mistake rs' (k + 1) = choose_mistake rs (k + 1)"
      by (simp add: same_draw_def choose_mistake_def random_random_def)
    show ?thesis
    proof (cases "choose_mistake rs (k + 1)")
      case Spelling
      with False yes assms
      have "\<forall>i. k + 2 \<le> i \<and> i < snd (make_spelling_error rs (k + 2) w) \<longrightarrow> same_draw rs rs' i"
        by (simp add: imperfect_word_count)
      then have "make_spelling_error rs' (k + 2) w = make_spelling_error rs (k + 2) w"
        by (rule make_spelling_error_agree)
      with False yes r c Spelling show ?thesis
        by (simp add: imperfect_word_def Let_def add.assoc)
    next
      case StrikethroughMistake
      with False yes r c show ?thesis by (simp add: imperfect_word_def Let_def)
    next
      case ErasureMistake
      with False yes r c show ?thesis by (simp add: imperfect_word_def Let_def)
    qed
  qed
qed

lemma imperfect_words_ge: "k \<le> snd (imperfect_words rs level k ws)"
proof (induction ws arbitrary: k)
  case Nil
  then show ?case by simp
next
  case (Cons w ws)
  obtain seg k1 where w: "imperfect_word rs level k w = (seg, k1)"
    by (cases "imperfect_word rs level k w")
  obtain segs k2 where ws: "imperfect_words rs level k1 ws = (segs, k2)"
    by (cases "imperfect_words rs level k1 ws")
  have "k \<le> k1" using imperfect_word_ge [of k rs level w] w by simp
  moreover have "k1 \<le> k2" using Cons.IH [of k1] ws by simp
  ultimately show ?case using w ws by simp
qed

lemma imperfect_words_agree:
  "\<forall>i. k \<le> i \<and> i < snd (imperfect_words rs level k ws) \<longrightarrow> same_draw rs rs' i \<Longrightarrow>
   imperfect_words rs' level k ws = imperfect_words rs level k ws"
proof (induction ws arbitrary: k)
  case Nil
  then show ?case by simp
next
  case (Cons w ws)
  obtain seg k1 where w: "imperfect_word rs level k w = (seg, k1)"
    by (cases "imperfect_word rs level k w")
  obtain segs k2 where ws: "imperfect_words rs level k1 ws = (segs, k2)"
    by (cases "imperfect_words rs level k1 ws")
  have k1: "k \<le> k1" using imperfect_word_ge [of k rs level w] w by simp
  have k2: "k1 \<le> k2" using imperfect_words_ge [of k1 rs level ws] ws by simp
  from Cons.prems w ws have all: "\<forall>i. k \<le> i \<and> i < k2 \<longrightarrow> same_draw rs rs' i"
    by simp
  have "imperfect_word rs' level k w = imperfect_word rs level k w"
    using all k2 w by (intro imperfect_word_agree) simp
  moreover have "imperfect_words rs' level k1 ws = imperfect_words rs level k1 ws"
    using all k1 ws by (intro Cons.IH) simp
  ultimately show ?case using w ws by simp
qed

text \<open>
  C9: the Imperfection Model is deterministic given the random source. A run on the
  text \<open>txt\<close> with probability \<open>level\<close>, started after \<open>k\<close> calls to the random module,
  ends after \<open>k'\<close> calls; any run on the same text with the same probability whose
  random source makes the same draws at the calls \<open>k, \<dots>, k' - 1\<close> produces the same
  segments (texts, defect kinds, corrections) and consumes the same number of draws.
\<close>

theorem apply_imperfections_deterministic:
  assumes "\<forall>i. k \<le> i \<and> i < snd (apply_imperfections rs level k txt) \<longrightarrow> same_draw rs rs' i"
  shows "apply_imperfections rs' level k txt = apply_imperfections rs level k txt"
  using assms unfolding apply_imperfections_def by (rule imperfect_words_agree)

theorem apply_imperfections_deterministic_witness:
  "apply_imperfections late_source (7 / 100) 0 ''helo world'' =
     ([\<lparr>seg_text = ''hleo'', seg_type = Error, correction = Some ''helo''\<rparr>,
       \<lparr>seg_text = ''wrold'', seg_type = Error, correction = Some ''world''\<rparr>], 8) \<and>
   rand_float late_source 8 \<noteq> rand_float zero_source 8"
proof -
  have run: "apply_imperfections zero_source (7 / 100) 0 ''helo world'' =
     ([\<lparr>seg_text = ''hleo'', seg_type = Error, correction = Some ''helo''\<rparr>,
       \<lparr>seg_text = ''wrold'', seg_type = Error, correction = Some ''world''\<rparr>], 8)"
    by code_simp
  have "\<forall>i. 0 \<le> i \<and> i < snd (apply_imperfections zero_source (7 / 100) 0 ''helo world'') \<longrightarrow>
          same_draw zero_source late_source i"
    unfolding run by (simp add: same_draw_def zero_source_def late_source_def)
  from apply_imperfections_deterministic [OF this] run
  show ?thesis by (simp add: zero_source_def late_source_def)
qed

section \<open>Properties of the ruled paper\<close>

lemma div_minus_step:
  fixes a S :: int
  assumes "0 < S"
  shows "(a - S) div S = a div S - 1"
proof -
  have "a div S = ((a - S) + S) div S" by simp
  also have "\<dots> = (a - S) div S + 1" using assms by (subst div_add_self2) simp_all
  finally show ?thesis by simp
qed

lemma floor_steps:
  fixes h S :: int
  assumes "0 < S"
  shows "(h - 61) div S \<le> (h - 60) div S" and "(h - 60) div S \<le> (h - 61) div S + 1"
proof -
  show "(h - 61) div S \<le> (h - 60) div S"
    using assms by (intro zdiv_mono1) simp_all
  have "(h - 60) div S \<le> (h - 61 + S) div S"
    using assms by (intro zdiv_mono1) simp_all
  also have "\<dots> = (h - 61) div S + 1"
    using assms by simp
  finally show "(h - 60) div S \<le> (h - 61) div S + 1" .
qed

lemma count_close:
  fixes h S :: int
  assumes "0 < S" "60 - S \<le> h"
  shows "\<bar>int (nat ((h - 61) div S)) - (h - 60) div S\<bar> \<le> 1"
proof (cases "0 \<le> (h - 61) div S")
  case True
  with floor_steps [OF assms(1), of h] show ?thesis by simp
next
  case False
  then have "h - 61 < 0" using assms(1) by (simp add: pos_imp_zdiv_nonneg_iff)
  then have up: "(h - 60) div S \<le> 0"
    using assms(1) by (simp add: div_nonpos_pos_le0)
  have "(0 - S) div S \<le> (h - 60) div S"
    using assms by (intro zdiv_mono1) simp_all
  then have "- 1 \<le> (h - 60) div S"
    using div_minus_step [OF assms(1), of 0] by simp
  with up False show ?thesis by simp
qed

lemma start_count:
  fixes h S :: int
  assumes "0 < S"
  shows "(h - 21 - (S + 40)) div S + 1 = (h - 61) div S"
proof -
  have "h - 21 - (S + 40) = (h - 61) - S" by simp
  then have "(h - 21 - (S + 40)) div S = (h - 61) div S - 1"
    by (simp only: div_minus_step [OF assms])
  then show ?thesis by linarith
qed

lemma length_rule_points: "length (rule_points rs k w y) = nat ((w + 14) div 15)"
  by (simp add: rule_points_def py_range_def)

lemma rule_drawn_iff: "1 < length (rule_points rs k w y) \<longleftrightarrow> 16 \<le> w"
  by (simp add: length_rule_points) linarith

lemma lined_loop_count:
  assumes "0 < spacing"
  shows "\<exists>res k'. lined_loop rs w h spacing y k ops = Some (res, k') \<and>
           horizontal_rules res =
             horizontal_rules ops + (if 16 \<le> w then nat ((h - 21 - y) div spacing + 1) else 0)"
proof (induction "nat (h - 20 - y)" arbitrary: y k ops rule: less_induct)
  case less
  show ?case
  proof (cases "y < h - 20")
    case False
    then have "(h - 21 - y) div spacing < 0"
      using assms by (simp add: div_neg_pos_less0)
    with False show ?thesis
      by (subst lined_loop.simps) simp
  next
    case True
    define ops' where "ops' = (if 1 < length (rule_points rs k w y)
        then ops @ [DrawLine (rule_points rs k w y) line_color 1] else ops)"
    have smaller: "nat (h - 20 - (y + spacing)) < nat (h - 20 - y)"
      using True assms by simp
    from less [OF smaller, of "k + length (rule_points rs k w y)" ops']
    obtain res k' where
      run: "lined_loop rs w h spacing (y + spacing) (k + length (rule_points rs k w y)) ops' = Some (res, k')"
      and cnt: "horizontal_rules res =
        horizontal_rules ops' + (if 16 \<le> w then nat ((h - 21 - (y + spacing)) div spacing + 1) else 0)"
      by blast
    have step: "lined_loop rs w h spacing y k ops = Some (res, k')"
      using True run by (subst lined_loop.simps) (simp add: ops'_def Let_def)
    have ops'_cnt: "horizontal_rules ops' = horizontal_rules ops + (if 16 \<le> w then 1 else 0)"
    proof (cases "16 \<le> w")
      case True
      then have "ops' = ops @ [DrawLine (rule_points rs k w y) line_color 1]"
        unfolding ops'_def using rule_drawn_iff [of rs k w y] by (simp only: if_True)
      with True show ?thesis by (simp add: horizontal_rules_def is_rule_def)
    next
      case False
      then have "ops' = ops"
        unfolding ops'_def using rule_drawn_iff [of rs k w y] by (simp only: if_False)
      with False show ?thesis by simp
    qed
    have "h - 21 - (y + spacing) = (h - 21 - y) - spacing" by simp
    then have "(h - 21 - (y + spacing)) div spacing = (h - 21 - y) div spacing - 1"
      by (simp only: div_minus_step [OF assms])
    moreover have "0 \<le> (h - 21 - y) div spacing"
      using True assms by (simp add: pos_imp_zdiv_nonneg_iff)
    ultimately have "nat ((h - 21 - y) div spacing + 1) = 1 + nat ((h - 21 - (y + spacing)) div spacing + 1)"
      by simp
    with cnt ops'_cnt step show ?thesis by auto
  qed
qed

text \<open>
  C8, as stated, fails on a page too low for a rule and on a page too narrow for
  one. With spacing 28, a page 1275 wide and 30 high gets no rule (the first rule
  would be at y = 68, below the page), while \<open>\<lfloor>(30 - 60) / 28\<rfloor> = -2\<close>; a page 10 wide
  and 1650 high gets no rule either, because a rule with a single sample point is
  not drawn, while \<open>\<lfloor>(1650 - 60) / 28\<rfloor> = 56\<close>.
\<close>

theorem low_or_narrow_page_has_no_rules:
  "draw_lined zero_source 0 1275 30 (Some 28) =
     Some ([DrawLine [(153, 0), (153, 30)] margin_color 2], 0) \<and>
   horizontal_rules [DrawLine [(153, 0), (153, 30)] margin_color 2] = 0 \<and>
   \<not> \<bar>int 0 - (30 - 60) div 28\<bar> \<le> 1 \<and>
   draw_lined zero_source 0 10 1650 (Some 28) =
     Some ([DrawLine [(1, 0), (1, 1650)] margin_color 2], 56) \<and>
   horizontal_rules [DrawLine [(1, 0), (1, 1650)] margin_color 2] = 0 \<and>
   \<not> \<bar>int 0 - (1650 - 60) div 28\<bar> \<le> 1"
proof -
  have low: "draw_lined zero_source 0 1275 30 (Some 28) =
     Some ([DrawLine [(153, 0), (153, 30)] margin_color 2], 0)"
    by code_simp
  have narrow: "draw_lined zero_source 0 10 1650 (Some 28) =
     Some ([DrawLine [(1, 0), (1, 1650)] margin_color 2], 56)"
    by code_simp
  have none: "horizontal_rules [DrawLine ps margin_color 2] = 0" for ps
    by (simp add: horizontal_rules_def is_rule_def)
  show ?thesis unfolding low narrow none by simp
qed

text \<open>
  C8 (amended): for lined paper with rule spacing \<open>S \<ge> 1\<close>, pixel width at least 16 and
  pixel height \<open>H \<ge> 60 - S\<close>, the paper texture generator returns, and the number of
  horizontal rule lines it draws equals \<open>\<lfloor>(H - 60) / S\<rfloor>\<close> within \<open>\<plusminus>1\<close>.
\<close>

theorem lined_rule_count:
  assumes "0 < S" and "16 \<le> w" and "60 - S \<le> h"
  shows "\<exists>ops k'. draw_lined rs k w h (Some S) = Some (ops, k') \<and>
           \<bar>int (horizontal_rules ops) - (h - 60) div S\<bar> \<le> 1"
proof -
  define margin where "margin = DrawLine
     [(real_of_int (py_int (real_of_int w * (12 / 100))), 0),
      (real_of_int (py_int (real_of_int w * (12 / 100))), real_of_int h)] margin_color 2"
  from lined_loop_count [OF assms(1), of rs w h "S + 40" k "[margin]"]
  obtain ops k' where run: "lined_loop rs w h S (S + 40) k [margin] = Some (ops, k')"
    and cnt: "horizontal_rules ops =
       horizontal_rules [margin] + (if 16 \<le> w then nat ((h - 21 - (S + 40)) div S + 1) else 0)"
    by blast
  have "horizontal_rules [margin] = 0"
    by (simp add: horizontal_rules_def is_rule_def margin_def margin_color_def line_color_def)
  with cnt assms(2) have "horizontal_rules ops = nat ((h - 21 - (S + 40)) div S + 1)"
    by (simp only: if_True add_0)
  then have "horizontal_rules ops = nat ((h - 61) div S)"
    by (simp only: start_count [OF assms(1)])
  with count_close [OF assms(1) assms(3)]
  have "\<bar>int (horizontal_rules ops) - (h - 60) div S\<bar> \<le> 1" by simp
  moreover have "draw_lined rs k w h (Some S) = Some (ops, k')"
    using run by (simp add: draw_lined_def margin_def)
  ultimately show ?thesis by blast
qed

theorem lined_rule_count_witness:
  "\<exists>ops k'. draw_lined zero_source 0 1275 1650 (Some 28) = Some (ops, k') \<and>
           \<bar>int (horizontal_rules ops) - (1650 - 60) div 28\<bar> \<le> 1"
  using lined_rule_count [of 28 1275 1650 zero_source 0] by simp

section \<open>Properties of the stroke renderer\<close>

text \<open>
  C5, as stated, fails: the line drawn for a misspelled segment is not beneath the
  word. For the segment "hleo" (correct word "helo") at cursor 80 on the line
  y = 100, measured in cells 10 wide and 20 high, the word's box runs from y = 98.5
  (top) to y = 118.5 (bottom) and the line is drawn at y = 108.5, through the middle
  of the word: the source calls it a light strikethrough.
\<close>

theorem misspelled_line_crosses_the_word:
  "render_segment default_engine cell_bbox 1 100 zero_source 80 0 misspelled_helo =
     Inr ([DrawText (78, 197 / 2) ''hleo'' MainFont (26, 26, 46, 191),
           DrawLine [(78, 217 / 2), (118, 217 / 2)] (26, 26, 46, 150) 1,
           DrawText (76, 157 / 2) ''helo'' SmallFont (26, 26, 46, 171)], 124, 5) \<and>
   cell_bbox (78, 197 / 2) ''hleo'' MainFont = (78, 197 / 2, 118, 237 / 2) \<and>
   (197 / 2 :: real) < 217 / 2 \<and> (217 / 2 :: real) < 237 / 2"
proof -
  have "render_segment default_engine cell_bbox 1 100 zero_source 80 0 misspelled_helo =
     Inr ([DrawText (78, 197 / 2) ''hleo'' MainFont (26, 26, 46, 191),
           DrawLine [(78, 217 / 2), (118, 217 / 2)] (26, 26, 46, 150) 1,
           DrawText (76, 157 / 2) ''helo'' SmallFont (26, 26, 46, 171)], 124, 5)"
    by code_simp
  moreover have "cell_bbox (78, 197 / 2) ''hleo'' MainFont = (78, 197 / 2, 118, 237 / 2)"
    by (simp add: cell_bbox_def)
  ultimately show ?thesis by simp
qed

text \<open>
  C5 (amended): for every segment whose defect kind is Misspelled, the stroke renderer
  draws the misspelled text in the main font, then a light (alpha 150), thin (width 1)
  straight line from the left to the right edge of the text's bounding box at the
  vertical middle of that box (a strike-through: strictly between the top and the
  bottom of a box of positive height), then the correct word in the smaller font
  above the box, at the top of the box minus font size times scale minus 2.
\<close>

theorem misspelled_rendering:
  assumes "seg_type seg = Error" and "correction seg = Some corr"
    and "pos = (cursor_x + random_uniform rs k (- 2) 2 * scale,
                y + random_uniform rs (k + 1) (- (3 / 2)) (3 / 2) * scale)"
    and "tb pos (seg_text seg) MainFont = (x0, y0, x1, y1)"
    and "alpha = nat (py_int (255 * random_uniform rs (k + 2) (3 / 4) 1))"
  shows "render_segment eng tb scale y rs cursor_x k seg =
     Inr ([DrawText pos (seg_text seg) MainFont (with_alpha (ink_rgb eng) alpha),
           DrawLine [(x0, (y0 + y1) / 2), (x1, (y0 + y1) / 2)] (with_alpha (ink_rgb eng) 150) 1,
           DrawText (fst pos + random_uniform rs (k + 3) (- 2) 2,
                     y0 - real_of_int (eng_font_size eng) * scale - 2) corr SmallFont
             (with_alpha (ink_rgb eng) (nat (py_int (real alpha * (9 / 10)))))],
          cursor_x + ((x1 - x0) + random_uniform rs (k + 4) 4 8 * scale), k + 5) \<and>
     (y0 < y1 \<longrightarrow> y0 < (y0 + y1) / 2 \<and> (y0 + y1) / 2 < y1)"
proof -
  have k4: "k + 3 + 1 = k + 4" and k5: "k + 3 + 1 + 1 = k + 5" by simp_all
  have "render_segment eng tb scale y rs cursor_x k seg =
     Inr ([DrawText pos (seg_text seg) MainFont (with_alpha (ink_rgb eng) alpha),
           DrawLine [(x0, (y0 + y1) / 2), (x1, (y0 + y1) / 2)] (with_alpha (ink_rgb eng) 150) 1,
           DrawText (fst pos + random_uniform rs (k + 3) (- 2) 2,
                     y0 - real_of_int (eng_font_size eng) * scale - 2) corr SmallFont
             (with_alpha (ink_rgb eng) (nat (py_int (real alpha * (9 / 10)))))],
          cursor_x + ((x1 - x0) + random_uniform rs (k + 4) 4 8 * scale), k + 5)"
    using assms unfolding render_segment_def Let_def
    by (simp only: seg_type.case prod.case option.case sum.case fst_conv k4 k5) simp
  moreover have "y0 < y1 \<longrightarrow> y0 < (y0 + y1) / 2 \<and> (y0 + y1) / 2 < y1"
    by (simp add: field_simps)
  ultimately show ?thesis by blast
qed

theorem misspelled_rendering_witness:
  "render_segment default_engine cell_bbox 2 40 zero_source 10 3 misspelled_helo =
     Inr ([DrawText (6, 37) ''hleo'' MainFont (26, 26, 46, 191),
           DrawLine [(6, 47), (46, 47)] (26, 26, 46, 150) 1,
           DrawText (4, - 1) ''helo'' SmallFont (26, 26, 46, 171)], 58, 8) \<and>
   (37 :: real) < 47 \<and> (47 :: real) < 57"
proof -
  have u: "random_uniform zero_source i a b = a" for i a b
    by (simp add: random_uniform_def zero_source_def)
  have "nat (py_int (255 * (3 / 4))) = 191"
    by (simp add: py_int_def)
  moreover have "nat (py_int (real 191 * (9 / 10))) = 171"
    by (simp add: py_int_def)
  ultimately show ?thesis
    using misspelled_rendering [of misspelled_helo "''helo''" "(6, 37)" 10 zero_source 3 2 40
      cell_bbox 6 37 46 57 191 default_engine]
    by (simp add: u misspelled_helo_def cell_bbox_def default_engine_def with_alpha_def)
qed

section \<open>Properties of the layer compositor\<close>

subsection \<open>Size and mode of the composed page\<close>

lemma image_paste_frame:
  "img_width (image_paste dst src x y m) = img_width dst"
  "img_height (image_paste dst src x y m) = img_height dst"
  "img_mode (image_paste dst src x y m) = img_mode dst"
  by (simp_all add: image_paste_def)

lemma paste_diagram_frame:
  assumes "paste_diagram env scale page d = Inr page'"
  shows "img_width page' = img_width page \<and> img_height page' = img_height page \<and>
         img_mode page' = img_mode page"
  using assms
  by (auto simp: paste_diagram_def image_paste_frame Let_def
      split: option.splits sum.splits prod.splits)

lemma paste_diagrams_frame:
  "paste_diagrams env scale page ds = Inr page' \<Longrightarrow>
   img_width page' = img_width page \<and> img_height page' = img_height page \<and>
   img_mode page' = img_mode page"
proof (induction ds arbitrary: page)
  case Nil
  then show ?case by simp
next
  case (Cons d ds)
  from Cons.prems obtain mid where
    one: "paste_diagram env scale page d = Inr mid" and
    rest: "paste_diagrams env scale mid ds = Inr page'"
    by (auto split: sum.splits)
  from paste_diagram_frame [OF one] Cons.IH [OF rest] show ?case by simp
qed

lemma text_over_paper_frame:
  assumes "text_over_paper env page text_layer = Inr page'"
  shows "img_width page' = img_width page \<and> img_height page' = img_height page"
  using assms
  by (auto simp: text_over_paper_def alpha_composite_def
      split: option.splits sum.splits if_splits)

lemma compose_page_frame:
  assumes "compose_page env paper text_layer diagrams scale = Inr out"
  shows "img_width out = img_width paper \<and> img_height out = img_height paper \<and>
         img_mode out = RGB"
proof -
  from assms obtain page page' where
    t: "text_over_paper env (image_convert paper RGBA) text_layer = Inr page" and
    p: "paste_diagrams env scale page diagrams = Inr page'" and
    out: "out = image_convert page' RGB"
    by (auto simp: compose_page_def split: sum.splits)
  from text_over_paper_frame [OF t] paste_diagrams_frame [OF p] out
  show ?thesis by (simp add: image_convert_def)
qed

subsection \<open>When the compositor returns\<close>

lemma paste_diagram_returns:
  assumes "diagram_ok env scale d"
  shows "\<exists>page'. paste_diagram env scale page d = Inr page'"
  using assms
  by (auto simp: paste_diagram_def diagram_ok_def image_resize_def Let_def
      split: option.splits sum.splits prod.splits)

lemma paste_diagrams_returns:
  "\<forall>d\<in>set ds. diagram_ok env scale d \<Longrightarrow> \<exists>page'. paste_diagrams env scale page ds = Inr page'"
proof (induction ds arbitrary: page)
  case Nil
  then show ?case by simp
next
  case (Cons d ds)
  from Cons.prems have "diagram_ok env scale d" by simp
  from paste_diagram_returns [OF this, of page]
  obtain mid where one: "paste_diagram env scale page d = Inr mid" by blast
  from Cons.IH [of mid] Cons.prems
  obtain page' where "paste_diagrams env scale mid ds = Inr page'" by auto
  with one show ?case by simp
qed

lemma text_over_paper_returns:
  assumes "layer_ok paper text_layer"
  shows "\<exists>page. text_over_paper env (image_convert paper RGBA) text_layer = Inr page"
  using assms
  by (auto simp: text_over_paper_def layer_ok_def image_resize_def alpha_composite_def
      image_convert_def split: option.splits sum.splits)

text \<open>
  C10, as stated, fails for a diagram whose scaled target rectangle has no width: with
  scale 2, a diagram of width 0.25 has the pixel width \<^verbatim>\<open>int(0.25 * 2) = 0\<close>, and
  \<^verbatim>\<open>resize((0, 2))\<close> raises ValueError, so \<^verbatim>\<open>compose_page\<close> returns no page.
\<close>

theorem zero_width_target_raises:
  "diagram_ok plain_pil 2 (diagram_at (solid RGBA 2 2 (255, 255, 255, 128)) 0 0 (1 / 4) 1) = False \<and>
   compose_page plain_pil (solid RGB 4 4 (0, 0, 0, 255)) None
     [diagram_at (solid RGBA 2 2 (255, 255, 255, 128)) 0 0 (1 / 4) 1] 2 =
     Inl (ValueError ''height and width must be > 0'')"
  by (simp add: compose_page_def text_over_paper_def paste_diagram_def diagram_at_def
      converted_raster_def target_box_def py_int_def image_resize_def solid_def diagram_ok_def)

text \<open>
  C10 (amended): for every paper raster, every text layer that is absent or RGBA (and,
  when its size differs from the paper's, a paper of at least 1 by 1 pixel), and every
  diagram list in which each converted raster opens and has a scaled target size of
  at least 1 by 1 pixel (or exactly its own size), including target rectangles larger
  than the page or partly or wholly outside it, \<^verbatim>\<open>compose_page\<close> returns an image whose
  pixel dimensions equal the paper's and whose mode is RGB: out-of-bounds diagram
  content is cropped and never changes the page size.
\<close>

theorem compose_page_size_mode:
  assumes "layer_ok paper text_layer" and "\<forall>d\<in>set diagrams. diagram_ok env scale d"
  shows "\<exists>out. compose_page env paper text_layer diagrams scale = Inr out \<and>
           img_width out = img_width paper \<and> img_height out = img_height paper \<and>
           img_mode out = RGB"
proof -
  from text_over_paper_returns [OF assms(1), of env]
  obtain page where t: "text_over_paper env (image_convert paper RGBA) text_layer = Inr page"
    by blast
  from paste_diagrams_returns [OF assms(2), of page]
  obtain page' where p: "paste_diagrams env scale page diagrams = Inr page'"
    by blast
  from t p have run: "compose_page env paper text_layer diagrams scale = Inr (image_convert page' RGB)"
    by (simp add: compose_page_def)
  from compose_page_frame [OF run] run show ?thesis by blast
qed


theorem compose_page_size_mode_witness:
  "\<exists>out. compose_page plain_pil (solid RGB 4 4 (0, 0, 0, 255))
           (Some (solid RGBA 3 3 (9, 9, 9, 9)))
           [diagram_at (solid RGBA 2 2 (255, 255, 255, 255)) (- (3 / 2)) 1 5 5] 2 = Inr out \<and>
         img_width out = 4 \<and> img_height out = 4 \<and> img_mode out = RGB"
proof -
  have layer: "layer_ok (solid RGB 4 4 (0, 0, 0, 255)) (Some (solid RGBA 3 3 (9, 9, 9, 9)))"
    by (simp add: layer_ok_def solid_def)
  have box: "target_box (diagram_at (solid RGBA 2 2 (255, 255, 255, 255)) (- (3 / 2)) 1 5 5)
               (solid RGBA 2 2 (255, 255, 255, 255)) 2 = (- 3, 2, 10, 10)"
    by (simp add: target_box_def diagram_at_def py_int_def)
  have "diagram_ok plain_pil 2 (diagram_at (solid RGBA 2 2 (255, 255, 255, 255)) (- (3 / 2)) 1 5 5)"
    by (simp add: diagram_ok_def diagram_at_def converted_raster_def target_box_def py_int_def
        solid_def)
  then have all: "\<forall>d\<in>set [diagram_at (solid RGBA 2 2 (255, 255, 255, 255)) (- (3 / 2)) 1 5 5].
      diagram_ok plain_pil 2 d"
    by simp
  from compose_page_size_mode [OF layer all]
  show ?thesis by (simp add: solid_def)
qed

subsection \<open>Pasting a diagram\<close>

lemma div255: "n < 256 \<Longrightarrow> ((n * 255 + 128) div 256 + (n * 255 + 128)) div 256 = (n::nat)"
  by arith

lemma unat_byte: "unat (b :: 8 word) < 256"
  using unsigned_less [of b, where 'a = nat] by simp

lemma blend8_full: "blend8 255 a b = b"
  using unat_byte [of b] by (simp add: blend8_def Let_def div255)

lemma blend8_none: "blend8 0 a b = a"
  using unat_byte [of a] by (simp add: blend8_def Let_def div255)

lemma blend_pixel_full: "blend_pixel 255 d s = s"
  by (cases d, cases s) (simp add: blend_pixel_def blend8_full)

lemma blend_pixel_none: "blend_pixel 0 d s = d"
  by (cases d, cases s) (simp add: blend_pixel_def blend8_none)

lemma compose_page_opaque:
  assumes "compose_page env paper text_layer diagrams scale = Inr out"
  shows "alpha_of (pixel_at out u v) = 255"
  using assms
  by (auto simp: compose_page_def image_convert_def alpha_of_def opaque_def split: sum.splits)

text \<open>
  C6, as stated, fails where the diagram is neither opaque nor transparent: a white
  diagram pixel of alpha 128 pasted on a black page gives the grey (128, 128, 128),
  neither the diagram's pixel nor the page's. \<^verbatim>\<open>page.paste(converted, (x, y), converted)\<close>
  uses the alpha band as a mask, and PIL mixes the two images by the mask.
\<close>

theorem half_transparent_diagram_is_blended:
  "map_sum id (\<lambda>img. (img_mode img, pixel_at img 0 0))
     (compose_page plain_pil (solid RGB 1 1 (0, 0, 0, 255)) None
        [diagram_at (solid RGBA 1 1 (255, 255, 255, 128)) 0 0 1 1] 1) =
     Inr (RGB, (128, 128, 128, 255))"
  by (simp add: compose_page_def text_over_paper_def paste_diagram_def diagram_at_def
      converted_raster_def target_box_def py_int_def image_resize_def solid_def
      image_paste_def inside_def image_convert_def blend_pixel_def blend8_def alpha_of_def
      opaque_def Let_def)

text \<open>
  C6 (amended): for every diagram that is pasted, inside its target rectangle (cropped
  to the page) the page pixel is replaced by the diagram's pixel where the diagram's
  alpha is 255 and is kept where the alpha is 0; for an alpha in between the two
  pixels are mixed in proportion to the alpha. Outside the rectangle the page is
  unchanged. The final composed page is returned in mode RGB, every pixel opaque.
\<close>

theorem diagram_paste_by_alpha:
  assumes "converted_image d = Some c" and "converted_raster env c = Inr conv"
    and "target_box d conv scale = (x, y, w, h)"
    and "image_resize env conv w h = Inr resized"
    and "rgba = (if img_mode resized \<noteq> RGBA then image_convert resized RGBA else resized)"
  shows "\<exists>page'. paste_diagram env scale page d = Inr page' \<and>
           (\<forall>px py. inside page px py \<and> inside rgba (px - x) (py - y) \<and>
                     alpha_of (pixel_at rgba (px - x) (py - y)) = 255 \<longrightarrow>
                     pixel_at page' px py = pixel_at rgba (px - x) (py - y)) \<and>
           (\<forall>px py. inside page px py \<and> inside rgba (px - x) (py - y) \<and>
                     alpha_of (pixel_at rgba (px - x) (py - y)) = 0 \<longrightarrow>
                     pixel_at page' px py = pixel_at page px py) \<and>
           (\<forall>px py. inside page px py \<and> inside rgba (px - x) (py - y) \<longrightarrow>
                     pixel_at page' px py =
                       blend_pixel (alpha_of (pixel_at rgba (px - x) (py - y)))
                         (pixel_at page px py) (pixel_at rgba (px - x) (py - y))) \<and>
           (\<forall>px py. \<not> (inside page px py \<and> inside rgba (px - x) (py - y)) \<longrightarrow>
                     pixel_at page' px py = pixel_at page px py) \<and>
           (\<forall>paper text_layer diagrams out u v.
              compose_page env paper text_layer diagrams scale = Inr out \<longrightarrow>
              img_mode out = RGB \<and> alpha_of (pixel_at out u v) = 255)"
proof -
  have run: "paste_diagram env scale page d = Inr (image_paste page rgba x y rgba)"
    using assms by (simp add: paste_diagram_def Let_def)
  have final: "\<forall>paper text_layer diagrams out u v.
      compose_page env paper text_layer diagrams scale = Inr out \<longrightarrow>
      img_mode out = RGB \<and> alpha_of (pixel_at out u v) = 255"
    using compose_page_frame compose_page_opaque by blast
  show ?thesis
    unfolding run using final
    by (simp add: image_paste_def blend_pixel_full blend_pixel_none)
qed

theorem diagram_paste_by_alpha_witness:
  "\<exists>page'. paste_diagram plain_pil 1 (solid RGBA 1 1 (0, 0, 0, 255))
              (diagram_at (solid RGBA 1 1 (255, 255, 255, 255)) 0 0 1 1) = Inr page' \<and>
            pixel_at page' 0 0 = (255, 255, 255, 255)"
proof -
  define white where "white = solid RGBA 1 1 (255, 255, 255, 255)"
  define d where "d = diagram_at white 0 0 1 1"
  have h1: "converted_image d = Some (ConvImage white)"
    by (simp add: d_def diagram_at_def)
  have h2: "converted_raster plain_pil (ConvImage white) = Inr white"
    by (simp add: converted_raster_def)
  have h3: "target_box d white 1 = (0, 0, 1, 1)"
    by (simp add: target_box_def d_def diagram_at_def py_int_def)
  have h4: "image_resize plain_pil white 1 1 = Inr white"
    by (simp add: image_resize_def white_def solid_def)
  have h5: "white = (if img_mode white \<noteq> RGBA then image_convert white RGBA else white)"
    by (simp add: white_def solid_def)
  from diagram_paste_by_alpha [OF h1 h2 h3 h4 h5, of "solid RGBA 1 1 (0, 0, 0, 255)"]
  obtain page' where
    run: "paste_diagram plain_pil 1 (solid RGBA 1 1 (0, 0, 0, 255)) d = Inr page'" and
    px: "\<forall>px py. inside (solid RGBA 1 1 (0, 0, 0, 255)) px py \<and> inside white (px - 0) (py - 0) \<and>
                  alpha_of (pixel_at white (px - 0) (py - 0)) = 255 \<longrightarrow>
                  pixel_at page' px py = pixel_at white (px - 0) (py - 0)"
    by blast
  from px [rule_format, of 0 0] have "pixel_at page' 0 0 = (255, 255, 255, 255)"
    by (simp add: inside_def solid_def alpha_of_def white_def)
  with run show ?thesis unfolding d_def white_def by blast
qed

section \<open>Properties of the diagram cache and converter\<close>

text \<open>
  C1 at a stale index row: the index has a row for the hash "abc" whose blob is
  missing, no blob is stored under the hash either, a key is configured and the
  service answers the first attempt with an image. The lookup is treated as a miss
  and the diagram is stylized again, the blob and the original are written, but the
  converter then adds a second row with the same \<^verbatim>\<open>image_hash\<close> instead of updating
  the stale one, and the commit raises IntegrityError out of \<^verbatim>\<open>_convert_single\<close>; the
  index still holds only the stale row.
\<close>

theorem stale_index_entry_raises:
  "cache_miss keyed_converter stale_state extracted_diagram \<and>
   find_entry [stale_entry] (image_hash extracted_diagram) = Some stale_entry \<and>
   files stale_state (converted_path stale_entry) = None \<and>
   convert_single keyed_converter 5 (\<lambda>attempt. Status200 (Some stylized)) stale_state
     extracted_diagram =
     (\<lparr>files = [''storage/cache/diagrams/abc.png'' \<mapsto> stylized,
                ''storage/cache/diagrams/abc_original.png'' \<mapsto> solid RGB 2 2 (10, 10, 10, 255)],
       index = Some [stale_entry]\<rparr>,
      [Post 0],
      Inl (IntegrityError ''UNIQUE constraint failed: diagram_cache.image_hash''))"
  by (simp add: cache_miss_def convert_single_def keyed_converter_def stale_state_def
      extracted_diagram_def stale_entry_def cached_path_def original_file_def db_hit_def
      find_entry_def key_configured_def call_imagen_def insert_entry_def Let_def)






end
